theory Spec2Isabelle
  imports Complex_Main "HOL-Library.Word"
begin

section \<open>Messages (message.go)\<close>

text \<open>
  \<^verbatim>\<open>type MessageType byte\<close> with the five constants of message.go. A \<^verbatim>\<open>Message\<close>
  is an interface with two implementations in the package: the plain \<^verbatim>\<open>message\<close>
  struct and \<^verbatim>\<open>closeMessage\<close>, which embeds a \<^verbatim>\<open>message\<close> and adds a code.
\<close>

type_synonym MessageType = "8 word"

definition PingMessage :: MessageType where "PingMessage = 9"
definition PongMessage :: MessageType where "PongMessage = 10"
definition BinaryMessage :: MessageType where "BinaryMessage = 2"
definition DataMessage :: MessageType where "DataMessage = 1"
definition CloseError :: MessageType where "CloseError = 8"

record message =
  MessageType :: MessageType
  MessageData :: "8 word list"

datatype Message = Plain message | CloseMsg message int

fun Type :: "Message \<Rightarrow> MessageType" where
  "Type (Plain m) = MessageType m"
| "Type (CloseMsg m code) = MessageType m"

fun Data :: "Message \<Rightarrow> 8 word list" where
  "Data (Plain m) = MessageData m"
| "Data (CloseMsg m code) = MessageData m"

definition NewMessage :: "MessageType \<Rightarrow> 8 word list \<Rightarrow> Message" where
  "NewMessage mt data = Plain \<lparr>MessageType = mt, MessageData = data\<rparr>"

definition NewPingMessage :: "8 word list \<Rightarrow> Message" where
  "NewPingMessage data = NewMessage PingMessage data"

definition NewPongMessage :: "8 word list \<Rightarrow> Message" where
  "NewPongMessage data = NewMessage PongMessage data"

definition NewDataMessage :: "8 word list \<Rightarrow> Message" where
  "NewDataMessage data = NewMessage DataMessage data"

definition NewCloseMessage :: "int \<Rightarrow> 8 word list \<Rightarrow> Message" where
  "NewCloseMessage code data = CloseMsg \<lparr>MessageType = CloseError, MessageData = data\<rparr> code"

section \<open>Errors (errors.go, github.com/pkg/errors)\<close>

text \<open>
  The four sentinels of errors.go are distinct values. \<^verbatim>\<open>errors.Wrap\<close> puts a message
  around a cause, which \<^verbatim>\<open>Unwrap\<close> gives back; \<open>Other\<close> stands for any error value
  from outside the package that wraps nothing.
\<close>

datatype error =
    ErrConnectionClosed
  | ErrCannotConnect
  | ErrTerminated
  | ErrRateLimit
  | Wrap error string
  | Other string

text \<open>\<^verbatim>\<open>errors.Wrap(err, msg)\<close>: nil when \<^verbatim>\<open>err\<close> is nil.\<close>

definition errors_Wrap :: "error option \<Rightarrow> string \<Rightarrow> error option" where
  "errors_Wrap err msg = (case err of None \<Rightarrow> None | Some e \<Rightarrow> Some (Wrap e msg))"

text \<open>\<^verbatim>\<open>errors.Is(err, target)\<close>: compare, then unwrap and compare again.\<close>

fun errors_Is :: "error \<Rightarrow> error \<Rightarrow> bool" where
  "errors_Is (Wrap e msg) target = (if Wrap e msg = target then True else errors_Is e target)"
| "errors_Is e target = (e = target)"

text \<open>\<^verbatim>\<open>err.Error()\<close>: a wrapped error prints its message, a colon and its cause.\<close>

fun Error :: "error \<Rightarrow> string" where
  "Error ErrConnectionClosed = ''connection has been closed''"
| "Error ErrCannotConnect = ''connection cannot be established''"
| "Error ErrTerminated = ''program exit''"
| "Error ErrRateLimit = ''rate limit exceeded''"
| "Error (Wrap e msg) = msg @ '': '' @ Error e"
| "Error (Other s) = s"

section \<open>What a handler does to its surroundings\<close>

text \<open>
  Handlers made by a \<^verbatim>\<open>ConnectionHandlerFactory\<close> are numbered in the order of the
  factory calls. Every call a handler makes on an inner handler, every sleep and every
  task it starts is recorded, in program order, as one entry of a trace.
\<close>

datatype EventType = EventConnect | EventReconnect | EventClose

datatype task = RunTask | EmitTask EventType

datatype effect =
    Create nat
  | InnerConnect nat
  | InnerClose nat
  | InnerSend nat Message
  | InnerRecv nat Message
  | Sleep int
  | Go task
  | Lock
  | Unlock
  | SetInner nat

section \<open>Outcomes of a call\<close>

text \<open>
  A call returns, panics (a method call on a nil handler), or blocks: a loop that never
  leaves, a send on a full channel, a receive on an empty one.
\<close>

datatype 'a outcome = Returns 'a | Panics | Blocks

section \<open>Durations and the clock (package time)\<close>

text \<open>
  \<^verbatim>\<open>time.Duration\<close> is an \<^verbatim>\<open>int64\<close> count of nanoseconds: a duration is an \<open>int\<close> here,
  and \<open>int64\<close> writes out the wrap-around of 64-bit signed arithmetic where the code
  computes with durations. A clock reading is a count of nanoseconds as well, and
  \<^verbatim>\<open>time.Since\<close> saturates at the two ends of \<^verbatim>\<open>Duration\<close>.
\<close>

type_synonym Duration = int

definition Second :: Duration where "Second = 1000000000"

definition maxDuration :: Duration where "maxDuration = 2 ^ 63 - 1"

definition minDuration :: Duration where "minDuration = - (2 ^ 63)"

definition int64 :: "int \<Rightarrow> int" where
  "int64 i = (i + 2 ^ 63) mod 2 ^ 64 - 2 ^ 63"

definition time_Since :: "int \<Rightarrow> int \<Rightarrow> Duration" where
  "time_Since t now =
     (let d = now - t in
      if d > maxDuration then maxDuration else if d < minDuration then minDuration else d)"

section \<open>The default backoff calculator (conn\_reconnect\_retry\_backoff.go)\<close>

text \<open>
  \<^verbatim>\<open>ExponentialBackoff\<close> computes \<^verbatim>\<open>(math.Pow(2.0, float64(attempts)) - 1) / 2\<close> in
  \<^verbatim>\<open>float64\<close>. A \<^verbatim>\<open>float64\<close> has a significand of 53 bits, so for
  \<open>0 \<le> attempts \<le> 53\<close> the three values \<open>2 ^ attempts\<close>, \<open>2 ^ attempts - 1\<close> and its half
  are represented exactly, no operation rounds, and the result is the real number
  below. Outside that range the subtraction rounds or the conversion to \<^verbatim>\<open>int64\<close>
  leaves the range in which Go defines it; the model gives \<open>None\<close> there and says
  nothing.

  \<^verbatim>\<open>ExponentialBackoffSeconds\<close> converts the \<^verbatim>\<open>float64\<close> to a \<^verbatim>\<open>Duration\<close>, which
  drops the fraction, and multiplies by \<^verbatim>\<open>time.Second\<close> in \<^verbatim>\<open>int64\<close>, which wraps.
\<close>

definition ExponentialBackoff :: "int \<Rightarrow> real option" where
  "ExponentialBackoff attempts =
     (if 0 \<le> attempts \<and> attempts \<le> 53 then Some ((2 ^ nat attempts - 1) / 2) else None)"

definition float64_to_int64 :: "real \<Rightarrow> int" where
  "float64_to_int64 x = (if 0 \<le> x then \<lfloor>x\<rfloor> else \<lceil>x\<rceil>)"

definition ExponentialBackoffSeconds :: "int \<Rightarrow> Duration option" where
  "ExponentialBackoffSeconds attempts =
     map_option (\<lambda>x. int64 (float64_to_int64 x * Second)) (ExponentialBackoff attempts)"

section \<open>The websocket connection: dial errors and the close reason\<close>

text \<open>
  Of an \<^verbatim>\<open>http.Response\<close> the code reads the status code and the body. The body is nil
  (\<open>None\<close>), or reading it fails, or it reads as a string.
\<close>

datatype body = ReadFails | Reads string

record Response =
  StatusCode :: int
  Body :: "body option"

definition StatusTooManyRequests :: int where "StatusTooManyRequests = 429"

text \<open>
  \<^verbatim>\<open>handleDialError\<close>, with the adapter \<^verbatim>\<open>errAdapters.OnDial\<close> as its first argument
  (\<open>None\<close> when it is nil). The connection argument is only handed to the adapter.
\<close>

type_synonym ErrAdapter = "Response option \<Rightarrow> error option \<Rightarrow> error option"

definition handleDialError ::
  "ErrAdapter option \<Rightarrow> Response option \<Rightarrow> error option \<Rightarrow> error option" where
  "handleDialError OnDial resp err =
     (case OnDial of
        Some adapter \<Rightarrow> adapter resp err
      | None \<Rightarrow>
          (let msg = (case resp of
                        None \<Rightarrow> []
                      | Some r \<Rightarrow> (case Body r of Some (Reads bts) \<Rightarrow> bts | _ \<Rightarrow> []))
           in case resp of
                Some r \<Rightarrow>
                  if StatusCode r = StatusTooManyRequests
                  then errors_Wrap (Some ErrRateLimit) msg
                  else (case err of
                          Some e \<Rightarrow> errors_Wrap (Some ErrCannotConnect) (Error e)
                        | None \<Rightarrow> None)
              | None \<Rightarrow>
                  (case err of
                     Some e \<Rightarrow> errors_Wrap (Some ErrCannotConnect) (Error e)
                   | None \<Rightarrow> None)))"

text \<open>
  The close reason of a \<^verbatim>\<open>WsConnection\<close> and its \<^verbatim>\<open>sync.Once\<close>, which is \<open>True\<close> once
  it has run. \<^verbatim>\<open>setCloseReason\<close> is the only place that assigns the field.
\<close>

record WsConnection =
  closeReason :: "error option"
  closeReasonOnce :: bool

definition NewWebsocketConnection :: WsConnection where
  "NewWebsocketConnection = \<lparr>closeReason = None, closeReasonOnce = False\<rparr>"

definition setCloseReason :: "error option \<Rightarrow> WsConnection \<Rightarrow> WsConnection" where
  "setCloseReason err w =
     (if closeReasonOnce w then w
      else w\<lparr>WsConnection.closeReason := err, closeReasonOnce := True\<rparr>)"

section \<open>Passive keep-alive handler (conn\_keep\_alive\_passive.go)\<close>

text \<open>
  The struct embeds its inner \<^verbatim>\<open>ConnectionHandler\<close> and holds the policy function
  \<^verbatim>\<open>handler\<close>, which is called with the inner handler and the message.
\<close>

type_synonym PassiveKeepAliveHandler = "nat \<Rightarrow> Message \<Rightarrow> effect list"

record passiveKeepAliveConnectionHandler =
  ConnectionHandler :: nat
  handler :: PassiveKeepAliveHandler

definition KeepAliveHandlerReplyPingWithPong :: PassiveKeepAliveHandler where
  "KeepAliveHandlerReplyPingWithPong ch m =
     (if Type m = PingMessage then [InnerSend ch (NewPongMessage (Data m))] else [])"

definition passive_Recv :: "passiveKeepAliveConnectionHandler \<Rightarrow> Message \<Rightarrow> effect list" where
  "passive_Recv h m = handler h (ConnectionHandler h) m @ [InnerRecv (ConnectionHandler h) m]"

definition newPassiveKeepAliveConnectionHandler ::
  "nat \<Rightarrow> PassiveKeepAliveHandler \<Rightarrow> passiveKeepAliveConnectionHandler" where
  "newPassiveKeepAliveConnectionHandler c h = \<lparr>ConnectionHandler = c, handler = h\<rparr>"

section \<open>Active keep-alive handler\<close>

text \<open>
  The struct embeds its inner handler; \<open>connectOnce\<close> and \<open>closeOnce\<close> are \<open>True\<close> once
  the \<^verbatim>\<open>sync.Once\<close> has run. \<^verbatim>\<open>Connect\<close> has a named result \<^verbatim>\<open>err\<close>, which stays nil
  when the once-guard skips the body. The first argument gives what \<^verbatim>\<open>Connect\<close> returns
  on each inner handler.
\<close>

record activeKeepAliveConnectionHandler =
  ConnectionHandler :: nat
  connectOnce :: bool
  closeOnce :: bool
  closeC :: bool

definition newActiveKeepAliveConnectionHandler :: "nat \<Rightarrow> activeKeepAliveConnectionHandler" where
  "newActiveKeepAliveConnectionHandler ch =
     \<lparr>ConnectionHandler = ch, connectOnce = False, closeOnce = False, closeC = False\<rparr>"

definition active_Connect ::
  "(nat \<Rightarrow> error option) \<Rightarrow> activeKeepAliveConnectionHandler
     \<Rightarrow> error option \<times> activeKeepAliveConnectionHandler \<times> effect list" where
  "active_Connect connect h =
     (if connectOnce h then (None, h, [])
      else (connect (activeKeepAliveConnectionHandler.ConnectionHandler h),
            h\<lparr>connectOnce := True\<rparr>,
            [InnerConnect (activeKeepAliveConnectionHandler.ConnectionHandler h), Go RunTask]))"

section \<open>Buffered channels\<close>

text \<open>
  A channel made with \<^verbatim>\<open>make(chan Message, n)\<close>, \<open>n > 0\<close>, while no receiver is waiting
  on it: a send appends to the buffer and blocks when the buffer holds \<open>n\<close> messages, a
  receive takes the oldest message and blocks when there is none.
\<close>

record 'a chan =
  cap :: nat
  buf :: "'a list"

definition make_chan :: "nat \<Rightarrow> 'a chan" where
  "make_chan n = \<lparr>cap = n, buf = []\<rparr>"

definition chan_send :: "'a chan \<Rightarrow> 'a \<Rightarrow> 'a chan outcome" where
  "chan_send c m = (if length (buf c) < cap c then Returns (c\<lparr>buf := buf c @ [m]\<rparr>) else Blocks)"

definition chan_recv :: "'a chan \<Rightarrow> ('a \<times> 'a chan) outcome" where
  "chan_recv c = (case buf c of [] \<Rightarrow> Blocks | m # ms \<Rightarrow> Returns (m, c\<lparr>buf := ms\<rparr>))"

section \<open>Backoff reconnect handler (conn\_reconnect\_retry\_backoff.go)\<close>

text \<open>
  The fields of the struct that the code reads and writes after construction, and the
  two fixed parameters \<open>calculator\<close> and \<open>connDurationThreshold\<close>. \<open>inner\<close> is \<open>None\<close>
  while the Go field is nil; \<open>closeC\<close> is \<open>True\<close> once the channel has been closed.
  The counters are Go \<^verbatim>\<open>int\<close>s, 64 bits wide; they grow by one per connection attempt
  and are modelled as \<open>int\<close>. The context is only handed on to \<^verbatim>\<open>Connect\<close> of the inner
  handlers: neither loop of the handler reads it while it connects.
\<close>

type_synonym backoffCalculator = "int \<Rightarrow> Duration"

record backoffConnectionHandler =
  inner :: "nat option"
  calculator :: backoffCalculator
  closeC :: bool
  closeOnce :: bool
  closeReason :: "error option"
  send :: "Message chan"
  recv :: "Message chan"
  connDurationThreshold :: Duration

definition newBackoffConnectionHandler ::
  "backoffCalculator \<Rightarrow> Duration \<Rightarrow> backoffConnectionHandler" where
  "newBackoffConnectionHandler calc threshold =
     \<lparr>inner = None, calculator = calc, closeC = False, closeOnce = False,
      closeReason = None, send = make_chan 32, recv = make_chan 32,
      connDurationThreshold = threshold\<rparr>"

text \<open>
  One pass through the \<^verbatim>\<open>for\<close> loop of \<^verbatim>\<open>newConnHandler\<close>. \<open>connect ch\<close> is what
  \<^verbatim>\<open>Connect\<close> returns on handler \<open>ch\<close>, and \<open>made\<close> counts the handlers the factory has
  made so far. \<open>Inl\<close> is \<^verbatim>\<open>continue\<close>, with the new counter; \<open>Inr\<close> is \<^verbatim>\<open>return ch\<close>.
\<close>

definition newConnHandler_iter ::
  "(nat \<Rightarrow> error option) \<Rightarrow> backoffCalculator \<Rightarrow> int \<Rightarrow> nat
     \<Rightarrow> (int \<times> nat \<times> effect list) + (nat \<times> nat \<times> effect list)" where
  "newConnHandler_iter connect calc attempts made =
     (let attempts = attempts + 1; ch = made in
      case connect ch of
        Some err \<Rightarrow>
          if errors_Is err ErrCannotConnect
          then Inl (attempts, made + 1, [Create ch, InnerConnect ch, Sleep Second])
          else (let ttw = calc attempts in
                Inl (attempts, made + 1, [Create ch, InnerConnect ch, Sleep ttw]))
      | None \<Rightarrow> Inr (ch, made + 1, [Create ch, InnerConnect ch]))"

partial_function (option) newConnHandler_loop ::
  "(nat \<Rightarrow> error option) \<Rightarrow> backoffCalculator \<Rightarrow> int \<Rightarrow> nat \<Rightarrow> effect list
     \<Rightarrow> (nat \<times> nat \<times> effect list) option" where
  "newConnHandler_loop connect calc attempts made tr =
     (case newConnHandler_iter connect calc attempts made of
        Inl (attempts', made', es) \<Rightarrow> newConnHandler_loop connect calc attempts' made' (tr @ es)
      | Inr (ch, made', es) \<Rightarrow> Some (ch, made', tr @ es))"

definition newConnHandler ::
  "backoffConnectionHandler \<Rightarrow> (nat \<Rightarrow> error option) \<Rightarrow> nat
     \<Rightarrow> (nat \<times> nat \<times> effect list) option" where
  "newConnHandler b connect made = newConnHandler_loop connect (calculator b) 0 made []"

definition backoff_Connect ::
  "(nat \<Rightarrow> error option) \<Rightarrow> backoffConnectionHandler \<times> nat
     \<Rightarrow> (error option \<times> backoffConnectionHandler \<times> nat \<times> effect list) outcome" where
  "backoff_Connect connect = (\<lambda>(b, made).
     case newConnHandler b connect made of
       None \<Rightarrow> Blocks
     | Some (ch, made', tr) \<Rightarrow> Returns (None, b\<lparr>inner := Some ch\<rparr>, made', tr @ [Go RunTask]))"

definition backoff_Send ::
  "backoffConnectionHandler \<Rightarrow> Message \<Rightarrow> backoffConnectionHandler outcome" where
  "backoff_Send b m =
     (case chan_send (send b) m of
        Returns c \<Rightarrow> Returns (b\<lparr>send := c\<rparr>)
      | Panics \<Rightarrow> Panics
      | Blocks \<Rightarrow> Blocks)"

definition backoff_Recv ::
  "backoffConnectionHandler \<Rightarrow> Message \<Rightarrow> backoffConnectionHandler outcome" where
  "backoff_Recv b m =
     (case chan_send (recv b) m of
        Returns c \<Rightarrow> Returns (b\<lparr>recv := c\<rparr>)
      | Panics \<Rightarrow> Panics
      | Blocks \<Rightarrow> Blocks)"

definition backoff_Close ::
  "backoffConnectionHandler \<Rightarrow> (backoffConnectionHandler \<times> effect list) outcome" where
  "backoff_Close b =
     (if closeOnce b then Returns (b, [])
      else case inner b of
             None \<Rightarrow> Panics
           | Some h \<Rightarrow> Returns (b\<lparr>closeOnce := True, closeC := True\<rparr>, [InnerClose h]))"

text \<open>
  The local variables of \<^verbatim>\<open>run\<close>. \<open>thenT\<close> is the local \<^verbatim>\<open>then\<close>; \<open>deferred\<close> is the
  handler that \<^verbatim>\<open>defer b.inner.Close()\<close> has bound, which is the inner handler at the
  time the \<^verbatim>\<open>defer\<close> statement runs.
\<close>

record run_locals =
  innerCloseChan :: nat
  attempts :: int
  thenT :: int
  deferred :: nat

definition run_begin :: "int \<Rightarrow> backoffConnectionHandler \<Rightarrow> run_locals outcome" where
  "run_begin now b =
     (case inner b of
        None \<Rightarrow> Panics
      | Some h \<Rightarrow> Returns \<lparr>innerCloseChan = h, attempts = 0, thenT = now, deferred = h\<rparr>)"

text \<open>
  The \<^verbatim>\<open>case <-innerCloseChan\<close> branch of \<^verbatim>\<open>run\<close> in three parts. \<open>repair_begin\<close> goes
  from \<^verbatim>\<open>b.inner.Close()\<close> to \<^verbatim>\<open>time.Sleep(ttw)\<close>: \<open>closeErr h\<close> is what \<^verbatim>\<open>CloseErr\<close>
  returns on handler \<open>h\<close>, \<open>now\<close> the clock that \<^verbatim>\<open>time.Since\<close> reads. Then comes
  \<^verbatim>\<open>newConnHandler\<close>. \<open>repair_end\<close> goes from the assignment of \<^verbatim>\<open>b.inner\<close> to the end
  of the branch, with \<open>now\<close> the clock that \<^verbatim>\<open>time.Now\<close> reads.
\<close>

definition repair_begin ::
  "(nat \<Rightarrow> error option) \<Rightarrow> int \<Rightarrow> backoffConnectionHandler \<times> run_locals
     \<Rightarrow> (backoffConnectionHandler \<times> run_locals \<times> effect list) outcome" where
  "repair_begin closeErr now = (\<lambda>(b, l).
     case inner b of
       None \<Rightarrow> Panics
     | Some h \<Rightarrow>
         (let b = b\<lparr>closeReason := closeErr h\<rparr>;
              n = (case closeReason b of
                     Some r \<Rightarrow>
                       if errors_Is r ErrConnectionClosed \<or> errors_Is r ErrTerminated
                       then (let delta = time_Since (thenT l) now in
                             if delta > connDurationThreshold b then 0 else attempts l + 1)
                       else attempts l
                   | None \<Rightarrow> attempts l);
              ttw = calculator b n
          in Returns (b, l\<lparr>attempts := n\<rparr>, [InnerClose h, Sleep ttw])))"

definition repair_end ::
  "int \<Rightarrow> nat \<Rightarrow> backoffConnectionHandler \<times> run_locals
     \<Rightarrow> backoffConnectionHandler \<times> run_locals \<times> effect list" where
  "repair_end now ch = (\<lambda>(b, l).
     (b\<lparr>inner := Some ch\<rparr>, l\<lparr>innerCloseChan := ch, thenT := now\<rparr>,
      [Go (EmitTask EventReconnect)]))"

definition run_innerCloseChan ::
  "(nat \<Rightarrow> error option) \<Rightarrow> (nat \<Rightarrow> error option) \<Rightarrow> int \<Rightarrow> int
     \<Rightarrow> backoffConnectionHandler \<times> run_locals \<times> nat
     \<Rightarrow> (backoffConnectionHandler \<times> run_locals \<times> nat \<times> effect list) outcome" where
  "run_innerCloseChan closeErr connect now1 now2 = (\<lambda>(b, l, made).
     case repair_begin closeErr now1 (b, l) of
       Returns (b1, l1, es1) \<Rightarrow>
         (case newConnHandler b1 connect made of
            None \<Rightarrow> Blocks
          | Some (ch, made', tr) \<Rightarrow>
              (case repair_end now2 ch (b1, l1) of
                 (b2, l2, es2) \<Rightarrow> Returns (b2, l2, made', es1 @ tr @ es2)))
     | Panics \<Rightarrow> Panics
     | Blocks \<Rightarrow> Blocks)"

text \<open>
  One pass through the \<^verbatim>\<open>for\<close>/\<^verbatim>\<open>select\<close> loop of \<^verbatim>\<open>run\<close>, for the case the \<^verbatim>\<open>select\<close>
  takes. The result says whether the loop goes on or \<^verbatim>\<open>run\<close> returns, which runs the
  deferred \<^verbatim>\<open>Close\<close>.
\<close>

datatype select_case = CtxDone | CloseCFired | RecvCase | SendCase | InnerCloseChanFired

datatype flow = Next | Return

definition run_select ::
  "(nat \<Rightarrow> error option) \<Rightarrow> (nat \<Rightarrow> error option) \<Rightarrow> int \<Rightarrow> int \<Rightarrow> select_case
     \<Rightarrow> backoffConnectionHandler \<times> run_locals \<times> nat
     \<Rightarrow> (backoffConnectionHandler \<times> run_locals \<times> nat \<times> effect list \<times> flow) outcome" where
  "run_select closeErr connect now1 now2 c = (\<lambda>(b, l, made).
     case c of
       CtxDone \<Rightarrow> Returns (b, l, made, [InnerClose (deferred l)], Return)
     | CloseCFired \<Rightarrow>
         if closeC b then Returns (b, l, made, [InnerClose (deferred l)], Return) else Blocks
     | RecvCase \<Rightarrow>
         (case chan_recv (recv b) of
            Returns (msg, c') \<Rightarrow>
              Returns (b\<lparr>recv := c'\<rparr>, l, made,
                       (case inner b of Some h \<Rightarrow> [InnerRecv h msg] | None \<Rightarrow> []), Next)
          | Panics \<Rightarrow> Panics
          | Blocks \<Rightarrow> Blocks)
     | SendCase \<Rightarrow>
         (case chan_recv (send b) of
            Returns (msg, c') \<Rightarrow>
              Returns (b\<lparr>send := c'\<rparr>, l, made,
                       (case inner b of Some h \<Rightarrow> [InnerSend h msg] | None \<Rightarrow> []), Next)
          | Panics \<Rightarrow> Panics
          | Blocks \<Rightarrow> Blocks)
     | InnerCloseChanFired \<Rightarrow>
         (case run_innerCloseChan closeErr connect now1 now2 (b, l, made) of
            Returns (b', l', made', es) \<Rightarrow> Returns (b', l', made', es, Next)
          | Panics \<Rightarrow> Panics
          | Blocks \<Rightarrow> Blocks))"

section \<open>Reopen-interval handler\<close>

text \<open>
  \<open>inner\<close> is \<open>None\<close> while the Go field is nil. One pass through the loop of
  \<^verbatim>\<open>newConnectionHandler\<close>: \<open>Inl\<close> is \<^verbatim>\<open>continue\<close>, \<open>Inr\<close> is \<^verbatim>\<open>return conn\<close>.
\<close>

record reopenIntervalConnectionHandler =
  inner :: "nat option"
  closeC :: bool
  closeOnce :: bool

definition newReopenIntervalConn :: reopenIntervalConnectionHandler where
  "newReopenIntervalConn = \<lparr>inner = None, closeC = False, closeOnce = False\<rparr>"

definition newConnectionHandler_iter ::
  "(nat \<Rightarrow> error option) \<Rightarrow> nat \<Rightarrow> (nat \<times> effect list) + (nat \<times> nat \<times> effect list)" where
  "newConnectionHandler_iter connect made =
     (let conn = made in
      case connect conn of
        Some err \<Rightarrow> Inl (made + 1, [Create conn, InnerConnect conn, InnerClose conn])
      | None \<Rightarrow> Inr (conn, made + 1, [Create conn, InnerConnect conn]))"

partial_function (option) newConnectionHandler_loop ::
  "(nat \<Rightarrow> error option) \<Rightarrow> nat \<Rightarrow> effect list \<Rightarrow> (nat \<times> nat \<times> effect list) option" where
  "newConnectionHandler_loop connect made tr =
     (case newConnectionHandler_iter connect made of
        Inl (made', es) \<Rightarrow> newConnectionHandler_loop connect made' (tr @ es)
      | Inr (conn, made', es) \<Rightarrow> Some (conn, made', tr @ es))"

definition newConnectionHandler ::
  "(nat \<Rightarrow> error option) \<Rightarrow> nat \<Rightarrow> (nat \<times> nat \<times> effect list) option" where
  "newConnectionHandler connect made = newConnectionHandler_loop connect made []"

definition reopen_Connect ::
  "(nat \<Rightarrow> error option) \<Rightarrow> reopenIntervalConnectionHandler \<times> nat
     \<Rightarrow> (error option \<times> reopenIntervalConnectionHandler \<times> nat \<times> effect list) outcome" where
  "reopen_Connect connect = (\<lambda>(b, made).
     case newConnectionHandler connect made of
       None \<Rightarrow> Blocks
     | Some (conn, made', tr) \<Rightarrow>
         Returns (None, b\<lparr>inner := Some conn\<rparr>, made',
                  [Lock] @ tr @ [SetInner conn, Unlock, Go RunTask]))"

text \<open>The local variables of \<^verbatim>\<open>run\<close>, and one pass through its loop.\<close>

record reopen_locals =
  connCount :: int
  closeChan :: nat

definition reopen_run_begin :: "reopenIntervalConnectionHandler \<Rightarrow> reopen_locals outcome" where
  "reopen_run_begin b =
     (case inner b of
        None \<Rightarrow> Panics
      | Some h \<Rightarrow> Returns \<lparr>connCount = 0, closeChan = h\<rparr>)"

datatype reopen_case = ReopenCtxDone | TickerFired | CloseChanFired

definition reopen_run_select ::
  "(nat \<Rightarrow> error option) \<Rightarrow> reopen_case
     \<Rightarrow> reopenIntervalConnectionHandler \<times> reopen_locals \<times> nat
     \<Rightarrow> (reopenIntervalConnectionHandler \<times> reopen_locals \<times> nat \<times> effect list \<times> flow) outcome" where
  "reopen_run_select connect c = (\<lambda>(b, l, made).
     case c of
       ReopenCtxDone \<Rightarrow> Returns (b, l, made, [], Return)
     | TickerFired \<Rightarrow>
         (case newConnectionHandler connect made of
            None \<Rightarrow> Blocks
          | Some (nextConnectionHandler, made', tr) \<Rightarrow>
              (case inner b of
                 None \<Rightarrow> Panics
               | Some old \<Rightarrow>
                   Returns (b\<lparr>inner := Some nextConnectionHandler\<rparr>,
                            \<lparr>connCount = connCount l + 1, closeChan = nextConnectionHandler\<rparr>,
                            made',
                            tr @ [Lock, InnerClose old, SetInner nextConnectionHandler, Unlock],
                            Next)))
     | CloseChanFired \<Rightarrow>
         (case newConnectionHandler connect made of
            None \<Rightarrow> Blocks
          | Some (conn, made', tr) \<Rightarrow>
              Returns (b\<lparr>inner := Some conn\<rparr>,
                       \<lparr>connCount = connCount l + 1, closeChan = conn\<rparr>,
                       made',
                       tr @ [Lock, SetInner conn, Unlock],
                       Next)))"

section \<open>Traces of the connecting loops\<close>

text \<open>
  The sleep that follows a failed \<^verbatim>\<open>Connect\<close> on handler \<open>ch\<close> in \<^verbatim>\<open>newConnHandler\<close> when
  the counter stands at \<open>n\<close>, and the trace of \<open>k\<close> failed attempts in a row, for the
  backoff handler and for the reopen-interval handler.
\<close>

definition pause :: "(nat \<Rightarrow> error option) \<Rightarrow> backoffCalculator \<Rightarrow> int \<Rightarrow> nat \<Rightarrow> Duration" where
  "pause connect calc n ch =
     (case connect ch of
        Some err \<Rightarrow> if errors_Is err ErrCannotConnect then Second else calc n
      | None \<Rightarrow> 0)"

definition failed_attempts ::
  "(nat \<Rightarrow> error option) \<Rightarrow> backoffCalculator \<Rightarrow> int \<Rightarrow> nat \<Rightarrow> nat \<Rightarrow> effect list" where
  "failed_attempts connect calc n made k =
     concat (map (\<lambda>i. [Create (made + i), InnerConnect (made + i),
                        Sleep (pause connect calc (n + int i + 1) (made + i))]) [0..<k])"

definition cleaned_attempts :: "nat \<Rightarrow> nat \<Rightarrow> effect list" where
  "cleaned_attempts made k =
     concat (map (\<lambda>i. [Create (made + i), InnerConnect (made + i), InnerClose (made + i)]) [0..<k])"

fun sleeps :: "effect list \<Rightarrow> Duration list" where
  "sleeps [] = []"
| "sleeps (Sleep d # es) = d # sleeps es"
| "sleeps (e # es) = sleeps es"

text \<open>\<open>occurs_before a b es\<close>: the trace has a \<open>b\<close>, and an \<open>a\<close> stands before the first one.\<close>

definition occurs_before :: "effect \<Rightarrow> effect \<Rightarrow> effect list \<Rightarrow> bool" where
  "occurs_before a b es = (b \<in> set es \<and> a \<in> set (takeWhile (\<lambda>e. e \<noteq> b) es))"

section \<open>Concrete surroundings\<close>

text \<open>
  A calculator that is one second longer at every attempt, factories whose handlers
  fail to connect a fixed number of times, and close reasons of inner handlers.
\<close>

definition testCalculator :: backoffCalculator where
  "testCalculator n = (n + 1) * Second"

definition alwaysConnects :: "nat \<Rightarrow> error option" where
  "alwaysConnects ch = None"

definition failsTwice :: "nat \<Rightarrow> error option" where
  "failsTwice ch = (if ch < 2 then Some (Other ''handshake refused'') else None)"

definition cannotConnectThenRefused :: "nat \<Rightarrow> error option" where
  "cannotConnectThenRefused ch =
     (if ch = 0 then Some (Wrap ErrCannotConnect ''dial tcp: connection refused'')
      else if ch = 1 then Some (Other ''handshake refused'')
      else None)"

definition secondAttemptFails :: "nat \<Rightarrow> error option" where
  "secondAttemptFails ch = (if ch = 1 then Some (Other ''handshake refused'') else None)"

definition tooManyRequests :: Response where
  "tooManyRequests = \<lparr>StatusCode = 429, Body = Some (Reads ''slow down'')\<rparr>"

definition rateLimitedOnce :: "nat \<Rightarrow> error option" where
  "rateLimitedOnce ch =
     (if ch = 0 then handleDialError None (Some tooManyRequests) (Some (Other ''bad handshake''))
      else None)"

definition closedByPeer :: "nat \<Rightarrow> error option" where
  "closedByPeer h = Some (Wrap ErrConnectionClosed ''error occurred on websocket read: EOF'')"

definition closedThenTerminated :: "nat \<Rightarrow> error option" where
  "closedThenTerminated h =
     (if h = 0 then Some (Wrap ErrConnectionClosed ''error occurred on websocket read: EOF'')
      else Some ErrTerminated)"

definition closedClean :: "nat \<Rightarrow> error option" where
  "closedClean h = None"

definition connected :: "nat \<Rightarrow> backoffConnectionHandler" where
  "connected h = (newBackoffConnectionHandler testCalculator (30 * Second))
       \<lparr>backoffConnectionHandler.inner := Some h\<rparr>"

definition running :: "nat \<Rightarrow> int \<Rightarrow> run_locals" where
  "running h n = \<lparr>innerCloseChan = h, attempts = n, thenT = 0, deferred = 0\<rparr>"

definition keepAlivePing :: Message where
  "keepAlivePing = NewPingMessage [1, 2]"

definition fullChan :: "Message chan" where
  "fullChan = \<lparr>cap = 32, buf = replicate 32 keepAlivePing\<rparr>"

section \<open>Theorems\<close>

text \<open>
  C9. Under the default policy of the passive keep-alive handler, \<^verbatim>\<open>Recv(m)\<close> on a ping
  makes exactly two calls on the inner handler, in this order: one \<^verbatim>\<open>Send\<close> of a pong
  message whose payload is the payload of \<open>m\<close>, then \<^verbatim>\<open>Recv(m)\<close> with \<open>m\<close> itself. On
  any other message the only call is \<^verbatim>\<open>Recv(m)\<close>.
\<close>

theorem passive_default_policy_pong_then_forward:
  "passive_Recv (newPassiveKeepAliveConnectionHandler c KeepAliveHandlerReplyPingWithPong) m =
     (if Type m = PingMessage
      then [InnerSend c (Plain \<lparr>MessageType = PongMessage, MessageData = Data m\<rparr>), InnerRecv c m]
      else [InnerRecv c m])"
  by (simp add: passive_Recv_def newPassiveKeepAliveConnectionHandler_def
      KeepAliveHandlerReplyPingWithPong_def NewPongMessage_def NewMessage_def)

subsection \<open>Arithmetic of the default calculator\<close>

lemma float64_to_int64_half: "float64_to_int64 ((2 ^ k - 1) / 2) = (2 ^ k - 1) div 2"
proof -
  have "((2::real) ^ k - 1) / 2 = of_int (2 ^ k - 1) / of_int 2" by simp
  also have "\<lfloor>\<dots>\<rfloor> = (2 ^ k - 1) div 2" by (rule floor_divide_of_int_eq)
  finally show ?thesis by (simp add: float64_to_int64_def)
qed

lemma int64_in_range: "- (2 ^ 63) \<le> i \<Longrightarrow> i < 2 ^ 63 \<Longrightarrow> int64 i = i"
  by (simp add: int64_def)

text \<open>
  C10, as stated: the default calculator gives \<open>floor ((2 ^ n - 1) / 2)\<close> seconds for every
  \<open>n \<ge> 0\<close>. At \<open>n = 35\<close> that is 17179869183 seconds, more nanoseconds than an
  \<^verbatim>\<open>int64\<close> holds: the multiplication by \<^verbatim>\<open>time.Second\<close> wraps and the result is negative.
\<close>

theorem ExponentialBackoffSeconds_wraps_at_35:
  "ExponentialBackoffSeconds 35 = Some (- 1266874890709551616) \<and>
   ExponentialBackoffSeconds 35 \<noteq> Some ((2 ^ 35 - 1) div 2 * Second)"
  by (simp add: ExponentialBackoffSeconds_def ExponentialBackoff_def float64_to_int64_def
      int64_def Second_def)

text \<open>
  C10, amended: for every attempt count \<open>n\<close> from 0 to 34 the default calculator gives
  \<open>floor ((2 ^ n - 1) / 2)\<close> seconds; for 0, 1, 2, 3, 4, 5 these are 0, 0, 1, 3, 7 and 15
  seconds.
\<close>

theorem ExponentialBackoffSeconds_upto_34:
  assumes "0 \<le> n" and "n \<le> 34"
  shows "ExponentialBackoffSeconds n = Some ((2 ^ nat n - 1) div 2 * Second) \<and>
    map ExponentialBackoffSeconds [0, 1, 2, 3, 4, 5] =
      map (\<lambda>s. Some (s * Second)) [0, 0, 1, 3, 7, 15]"
proof -
  have le: "(2::int) ^ nat n \<le> 2 ^ 34" using assms by (intro power_increasing) auto
  have ge: "(1::int) \<le> 2 ^ nat n" by simp
  define h where "h = ((2::int) ^ nat n - 1) div 2"
  have h0: "0 \<le> h" and h1: "h \<le> 8589934591" using le ge unfolding h_def by auto
  have "h * Second \<le> 8589934591 * Second" using h1 by (simp add: Second_def)
  then have b: "int64 (h * Second) = h * Second"
    using h0 by (intro int64_in_range) (auto simp: Second_def)
  have general: "ExponentialBackoffSeconds n = Some ((2 ^ nat n - 1) div 2 * Second)"
    using assms b
    by (simp add: ExponentialBackoffSeconds_def ExponentialBackoff_def float64_to_int64_half h_def)
  have first: "map ExponentialBackoffSeconds [0, 1, 2, 3, 4, 5] =
      map (\<lambda>s. Some (s * Second)) [0, 0, 1, 3, 7, 15]"
    by (simp add: ExponentialBackoffSeconds_def ExponentialBackoff_def float64_to_int64_def
        int64_def Second_def)
  from general first show ?thesis by simp
qed

theorem ExponentialBackoffSeconds_upto_34_witness:
  "(0::int) \<le> 34 \<and> (34::int) \<le> 34 \<and>
   ExponentialBackoffSeconds 34 = Some (8589934591 * Second) \<and>
   ExponentialBackoffSeconds 3 = Some (3 * Second)"
  using ExponentialBackoffSeconds_upto_34 [of 34] ExponentialBackoffSeconds_upto_34 [of 3]
  by simp

subsection \<open>The connecting loop of the backoff handler\<close>

lemma failed_attempts_Suc:
  "failed_attempts connect calc n made (Suc k) =
     [Create made, InnerConnect made, Sleep (pause connect calc (n + 1) made)]
       @ failed_attempts connect calc (n + 1) (Suc made) k"
proof -
  have "[0..<Suc k] = 0 # map Suc [0..<k]"
    by (simp add: upt_conv_Cons map_Suc_upt del: upt_Suc)
  then show ?thesis
    by (simp add: failed_attempts_def comp_def add.commute add.left_commute del: upt_Suc)
qed

lemma newConnHandler_iter_fail:
  "connect made = Some err \<Longrightarrow>
   newConnHandler_iter connect calc n made =
     Inl (n + 1, Suc made, [Create made, InnerConnect made, Sleep (pause connect calc (n + 1) made)])"
  by (simp add: newConnHandler_iter_def pause_def Let_def)

lemma newConnHandler_iter_ok:
  "connect made = None \<Longrightarrow>
   newConnHandler_iter connect calc n made = Inr (made, Suc made, [Create made, InnerConnect made])"
  by (simp add: newConnHandler_iter_def)

lemma newConnHandler_loop_returns:
  "(\<And>i. i < k \<Longrightarrow> connect (made + i) \<noteq> None) \<Longrightarrow> connect (made + k) = None \<Longrightarrow>
   newConnHandler_loop connect calc n made tr =
     Some (made + k, Suc (made + k),
           tr @ failed_attempts connect calc n made k @ [Create (made + k), InnerConnect (made + k)])"
proof (induction k arbitrary: n made tr)
  case 0
  then show ?case
    by (subst newConnHandler_loop.simps) (simp add: newConnHandler_iter_ok failed_attempts_def)
next
  case (Suc k)
  from Suc.prems(1) [of 0] obtain err where e: "connect made = Some err" by auto
  have later: "\<And>i. i < k \<Longrightarrow> connect (Suc made + i) \<noteq> None"
    using Suc.prems(1) by (metis Suc_less_eq add_Suc_shift)
  have last: "connect (Suc made + k) = None" using Suc.prems(2) by simp
  show ?case
    by (subst newConnHandler_loop.simps)
      (simp add: newConnHandler_iter_fail [of connect made err] e Suc.IH [OF later last]
        failed_attempts_Suc)
qed

lemma newConnHandler_loop_Some_success:
  assumes "newConnHandler_loop connect calc n made tr = Some y"
  shows "\<exists>k. connect (made + k) = None"
proof (rule newConnHandler_loop.raw_induct
    [where P = "\<lambda>connect calc n made tr y. \<exists>k. connect (made + k) = None", OF _ assms])
  fix loop connect calc n made tr y
  assume IH: "\<And>connect calc n made tr y.
      loop connect calc n made tr = Some y \<Longrightarrow> \<exists>k. connect (made + k) = None"
    and body: "(case newConnHandler_iter connect calc n made of
        Inl (attempts', made', es) \<Rightarrow> loop connect calc attempts' made' (tr @ es)
      | Inr (ch, made', es) \<Rightarrow> Some (ch, made', tr @ es)) = Some y"
  show "\<exists>k. connect (made + k) = None"
  proof (cases "connect made")
    case None
    then have "connect (made + 0) = None" by simp
    then show ?thesis by blast
  next
    case (Some err)
    with body have "loop connect calc (n + 1) (Suc made)
        (tr @ [Create made, InnerConnect made, Sleep (pause connect calc (n + 1) made)]) = Some y"
      by (simp add: newConnHandler_iter_fail [of connect made err])
    from IH [OF this] obtain k where "connect (Suc made + k) = None" by blast
    then have "connect (made + Suc k) = None" by simp
    then show ?thesis by blast
  qed
qed

lemma first_success:
  fixes connect :: "nat \<Rightarrow> error option" and made :: nat
  assumes "\<exists>k. connect (made + k) = None"
  shows "\<exists>k. connect (made + k) = None \<and> (\<forall>i<k. connect (made + i) \<noteq> None)"
  using assms exists_least_iff [of "\<lambda>k. connect (made + k) = None"] by blast

lemma newConnHandler_returns_iff:
  "(\<exists>ch made' tr. newConnHandler b connect made = Some (ch, made', tr)) \<longleftrightarrow>
   (\<exists>k. connect (made + k) = None)"
proof
  assume "\<exists>ch made' tr. newConnHandler b connect made = Some (ch, made', tr)"
  then show "\<exists>k. connect (made + k) = None"
    unfolding newConnHandler_def using newConnHandler_loop_Some_success by blast
next
  assume "\<exists>k. connect (made + k) = None"
  then obtain k where "connect (made + k) = None"
    and "\<And>i. i < k \<Longrightarrow> connect (made + i) \<noteq> None"
    using first_success [of connect made] by blast
  then show "\<exists>ch made' tr. newConnHandler b connect made = Some (ch, made', tr)"
    unfolding newConnHandler_def
    using newConnHandler_loop_returns [of k connect made "calculator b" 0 "[]"] by blast
qed

lemma failed_attempts_sleeps:
  assumes "\<And>i. i < k \<Longrightarrow> connect (made + i) \<noteq> None"
  shows "failed_attempts connect calc n made k =
     concat (map (\<lambda>i. [Create (made + i), InnerConnect (made + i),
                        Sleep (if \<exists>err. connect (made + i) = Some err \<and> errors_Is err ErrCannotConnect
                               then Second else calc (n + int i + 1))])
       [0..<k])"
proof -
  have "\<And>i. i < k \<Longrightarrow> pause connect calc (n + int i + 1) (made + i) =
      (if \<exists>err. connect (made + i) = Some err \<and> errors_Is err ErrCannotConnect
       then Second else calc (n + int i + 1))"
    using assms by (fastforce simp: pause_def)
  then show ?thesis
    unfolding failed_attempts_def by (intro arg_cong [where f = concat] map_cong) auto
qed

text \<open>
  C2, as stated: the sleep after the first failure that is not \<^verbatim>\<open>ErrCannotConnect\<close> is
  \<open>f 0\<close> and after the second \<open>f 1\<close>. With two such failures before the first success the
  loop sleeps \<open>f 1\<close> and then \<open>f 2\<close>.
\<close>

theorem newConnHandler_first_sleep_is_f1:
  "map_option (sleeps \<circ> snd \<circ> snd)
      (newConnHandler (newBackoffConnectionHandler testCalculator (30 * Second)) failsTwice 0) =
     Some [testCalculator 1, testCalculator 2] \<and>
   [testCalculator 1, testCalculator 2] \<noteq> [testCalculator 0, testCalculator 1]"
  by (simp add: newConnHandler_def newConnHandler_loop.simps newConnHandler_iter_def
      failsTwice_def connected_def newBackoffConnectionHandler_def testCalculator_def Second_def)

text \<open>
  C2, amended: the loop increments the counter at the top of every pass, before the
  connection attempt and whatever its outcome: a pass that fails with \<^verbatim>\<open>ErrCannotConnect\<close>
  is counted as well, and waits one second. When an attempt fails with any other error
  the handler waits \<open>f\<close> of the counter that already counts this attempt, and retries. So
  with the counter starting at 0, when the first \<open>k\<close> attempts fail and the next one
  succeeds, the sleep after failure number \<open>i + 1\<close> is one second if the error matches
  \<^verbatim>\<open>ErrCannotConnect\<close> and \<open>f (i + 1)\<close> otherwise: \<open>f 1\<close> after the first failure, \<open>f 2\<close> after
  the second.
\<close>

theorem newConnHandler_sleeps_f_of_counted_attempts:
  assumes "\<forall>i<k. connect (made + i) \<noteq> None"
    and "connect (made + k) = None"
  shows "newConnHandler b connect made =
     Some (made + k, Suc (made + k),
       concat (map (\<lambda>i. [Create (made + i), InnerConnect (made + i),
                          Sleep (if \<exists>err. connect (made + i) = Some err \<and>
                                         errors_Is err ErrCannotConnect
                                 then Second else calculator b (int i + 1))]) [0..<k])
       @ [Create (made + k), InnerConnect (made + k)]) \<and>
   newConnHandler_iter connect calc n made =
     (case connect made of
        Some err \<Rightarrow>
          Inl (n + 1, Suc made,
               [Create made, InnerConnect made,
                Sleep (if errors_Is err ErrCannotConnect then Second else calc (n + 1))])
      | None \<Rightarrow> Inr (made, Suc made, [Create made, InnerConnect made]))"
proof -
  have fails: "\<And>i. i < k \<Longrightarrow> connect (made + i) \<noteq> None"
    using assms(1) by blast
  have "failed_attempts connect (calculator b) 0 made k =
     concat (map (\<lambda>i. [Create (made + i), InnerConnect (made + i),
                        Sleep (if \<exists>err. connect (made + i) = Some err \<and>
                                       errors_Is err ErrCannotConnect
                               then Second else calculator b (0 + int i + 1))]) [0..<k])"
    using fails by (intro failed_attempts_sleeps) blast
  then have loop: "newConnHandler b connect made =
     Some (made + k, Suc (made + k),
       concat (map (\<lambda>i. [Create (made + i), InnerConnect (made + i),
                          Sleep (if \<exists>err. connect (made + i) = Some err \<and>
                                         errors_Is err ErrCannotConnect
                                 then Second else calculator b (int i + 1))]) [0..<k])
       @ [Create (made + k), InnerConnect (made + k)])"
    unfolding newConnHandler_def
    using newConnHandler_loop_returns [of k connect made "calculator b" 0 "[]"] fails assms(2)
    by (simp cong: if_cong)
  have pass: "newConnHandler_iter connect calc n made =
     (case connect made of
        Some err \<Rightarrow>
          Inl (n + 1, Suc made,
               [Create made, InnerConnect made,
                Sleep (if errors_Is err ErrCannotConnect then Second else calc (n + 1))])
      | None \<Rightarrow> Inr (made, Suc made, [Create made, InnerConnect made]))"
    by (simp add: newConnHandler_iter_def Let_def split: option.splits)
  from loop pass show ?thesis by (rule conjI)
qed

theorem newConnHandler_sleeps_f_of_counted_attempts_witness:
  "cannotConnectThenRefused 0 = Some (Wrap ErrCannotConnect ''dial tcp: connection refused'') \<and>
   cannotConnectThenRefused 1 = Some (Other ''handshake refused'') \<and>
   cannotConnectThenRefused 2 = None \<and>
   newConnHandler (newBackoffConnectionHandler testCalculator (30 * Second))
       cannotConnectThenRefused 0 =
     Some (2, 3, [Create 0, InnerConnect 0, Sleep Second,
                  Create 1, InnerConnect 1, Sleep (testCalculator 2),
                  Create 2, InnerConnect 2]) \<and>
   newConnHandler (newBackoffConnectionHandler testCalculator (30 * Second)) failsTwice 0 =
     Some (2, 3, [Create 0, InnerConnect 0, Sleep (testCalculator 1),
                  Create 1, InnerConnect 1, Sleep (testCalculator 2),
                  Create 2, InnerConnect 2]) \<and>
   newConnHandler_iter cannotConnectThenRefused testCalculator 0 0 =
     Inl (1, 1, [Create 0, InnerConnect 0, Sleep Second])"
proof -
  have m1: "\<forall>i<2. cannotConnectThenRefused (0 + i) \<noteq> None"
    by (simp add: cannotConnectThenRefused_def)
  have m2: "cannotConnectThenRefused (0 + 2) = None"
    by (simp add: cannotConnectThenRefused_def)
  have f1: "\<forall>i<2. failsTwice (0 + i) \<noteq> None"
    by (simp add: failsTwice_def)
  have f2: "failsTwice (0 + 2) = None"
    by (simp add: failsTwice_def)
  have "[0..<2] = [0, Suc 0]" by (simp add: upt_conv_Cons)
  then show ?thesis
    using newConnHandler_sleeps_f_of_counted_attempts
      [of 2 cannotConnectThenRefused 0 "newBackoffConnectionHandler testCalculator (30 * Second)"
        testCalculator 0] m1 m2
      newConnHandler_sleeps_f_of_counted_attempts
      [of 2 failsTwice 0 "newBackoffConnectionHandler testCalculator (30 * Second)"
        testCalculator 0] f1 f2
    by (simp add: newBackoffConnectionHandler_def failsTwice_def cannotConnectThenRefused_def)
qed

subsection \<open>The connecting loop of the reopen-interval handler\<close>

lemma cleaned_attempts_Suc:
  "cleaned_attempts made (Suc k) =
     [Create made, InnerConnect made, InnerClose made] @ cleaned_attempts (Suc made) k"
proof -
  have "[0..<Suc k] = 0 # map Suc [0..<k]"
    by (simp add: upt_conv_Cons map_Suc_upt del: upt_Suc)
  then show ?thesis
    by (simp add: cleaned_attempts_def comp_def del: upt_Suc)
qed

lemma newConnectionHandler_loop_returns:
  "(\<And>i. i < k \<Longrightarrow> connect (made + i) \<noteq> None) \<Longrightarrow> connect (made + k) = None \<Longrightarrow>
   newConnectionHandler_loop connect made tr =
     Some (made + k, Suc (made + k),
           tr @ cleaned_attempts made k @ [Create (made + k), InnerConnect (made + k)])"
proof (induction k arbitrary: made tr)
  case 0
  then show ?case
    by (subst newConnectionHandler_loop.simps)
      (simp add: newConnectionHandler_iter_def cleaned_attempts_def)
next
  case (Suc k)
  from Suc.prems(1) [of 0] obtain err where e: "connect made = Some err" by auto
  have later: "\<And>i. i < k \<Longrightarrow> connect (Suc made + i) \<noteq> None"
    using Suc.prems(1) by (metis Suc_less_eq add_Suc_shift)
  have last: "connect (Suc made + k) = None" using Suc.prems(2) by simp
  show ?case
    by (subst newConnectionHandler_loop.simps)
      (simp add: newConnectionHandler_iter_def e Suc.IH [OF later last] cleaned_attempts_Suc)
qed

lemma newConnectionHandler_loop_Some_success:
  assumes "newConnectionHandler_loop connect made tr = Some y"
  shows "\<exists>k. connect (made + k) = None"
proof (rule newConnectionHandler_loop.raw_induct
    [where P = "\<lambda>connect made tr y. \<exists>k. connect (made + k) = None", OF _ assms])
  fix loop connect made tr y
  assume IH: "\<And>connect made tr y.
      loop connect made tr = Some y \<Longrightarrow> \<exists>k. connect (made + k) = None"
    and body: "(case newConnectionHandler_iter connect made of
        Inl (made', es) \<Rightarrow> loop connect made' (tr @ es)
      | Inr (conn, made', es) \<Rightarrow> Some (conn, made', tr @ es)) = Some y"
  show "\<exists>k. connect (made + k) = None"
  proof (cases "connect made")
    case None
    then have "connect (made + 0) = None" by simp
    then show ?thesis by blast
  next
    case (Some err)
    with body have "loop connect (Suc made)
        (tr @ [Create made, InnerConnect made, InnerClose made]) = Some y"
      by (simp add: newConnectionHandler_iter_def)
    from IH [OF this] obtain k where "connect (Suc made + k) = None" by blast
    then have "connect (made + Suc k) = None" by simp
    then show ?thesis by blast
  qed
qed

lemma newConnectionHandler_returns_iff:
  "(\<exists>conn made' tr. newConnectionHandler connect made = Some (conn, made', tr)) \<longleftrightarrow>
   (\<exists>k. connect (made + k) = None)"
proof
  assume "\<exists>conn made' tr. newConnectionHandler connect made = Some (conn, made', tr)"
  then show "\<exists>k. connect (made + k) = None"
    unfolding newConnectionHandler_def using newConnectionHandler_loop_Some_success by blast
next
  assume "\<exists>k. connect (made + k) = None"
  then obtain k where "connect (made + k) = None"
    and "\<And>i. i < k \<Longrightarrow> connect (made + i) \<noteq> None"
    using first_success [of connect made] by blast
  then show "\<exists>conn made' tr. newConnectionHandler connect made = Some (conn, made', tr)"
    unfolding newConnectionHandler_def
    using newConnectionHandler_loop_returns [of k connect made "[]"] by blast
qed

text \<open>
  C8, backoff handler and reopen-interval handler: \<^verbatim>\<open>Connect\<close> never returns an error and
  never panics. It returns nil exactly when some attempt of the loop succeeds, and blocks
  exactly when every handler the factory makes fails to connect.
\<close>

theorem reconnecting_Connect_returns_nil_or_blocks:
  "backoff_Connect connect (b, made) \<noteq> Panics \<and>
   (\<forall>err b' made' tr. backoff_Connect connect (b, made) \<noteq> Returns (Some err, b', made', tr)) \<and>
   ((\<exists>b' made' tr. backoff_Connect connect (b, made) = Returns (None, b', made', tr)) \<longleftrightarrow>
      (\<exists>k. connect (made + k) = None)) \<and>
   (backoff_Connect connect (b, made) = Blocks \<longleftrightarrow> (\<forall>k. connect (made + k) \<noteq> None)) \<and>
   reopen_Connect connect (r, made) \<noteq> Panics \<and>
   (\<forall>err r' made' tr. reopen_Connect connect (r, made) \<noteq> Returns (Some err, r', made', tr)) \<and>
   ((\<exists>r' made' tr. reopen_Connect connect (r, made) = Returns (None, r', made', tr)) \<longleftrightarrow>
      (\<exists>k. connect (made + k) = None)) \<and>
   (reopen_Connect connect (r, made) = Blocks \<longleftrightarrow> (\<forall>k. connect (made + k) \<noteq> None))"
proof -
  have b1: "backoff_Connect connect (b, made) \<noteq> Panics"
    by (simp add: backoff_Connect_def split: option.splits)
  have b2: "\<forall>err b' made' tr. backoff_Connect connect (b, made) \<noteq> Returns (Some err, b', made', tr)"
    by (simp add: backoff_Connect_def split: option.splits)
  have b3: "(\<exists>b' made' tr. backoff_Connect connect (b, made) = Returns (None, b', made', tr)) \<longleftrightarrow>
      (\<exists>k. connect (made + k) = None)"
    using newConnHandler_returns_iff [of b connect made]
    by (auto simp: backoff_Connect_def split: option.splits)
  have b4: "backoff_Connect connect (b, made) = Blocks \<longleftrightarrow> (\<forall>k. connect (made + k) \<noteq> None)"
    using newConnHandler_returns_iff [of b connect made]
    by (auto simp: backoff_Connect_def split: option.splits)
  have r1: "reopen_Connect connect (r, made) \<noteq> Panics"
    by (simp add: reopen_Connect_def split: option.splits)
  have r2: "\<forall>err r' made' tr. reopen_Connect connect (r, made) \<noteq> Returns (Some err, r', made', tr)"
    by (simp add: reopen_Connect_def split: option.splits)
  have r3: "(\<exists>r' made' tr. reopen_Connect connect (r, made) = Returns (None, r', made', tr)) \<longleftrightarrow>
      (\<exists>k. connect (made + k) = None)"
    using newConnectionHandler_returns_iff [of connect made]
    by (auto simp: reopen_Connect_def split: option.splits)
  have r4: "reopen_Connect connect (r, made) = Blocks \<longleftrightarrow> (\<forall>k. connect (made + k) \<noteq> None)"
    using newConnectionHandler_returns_iff [of connect made]
    by (auto simp: reopen_Connect_def split: option.splits)
  from b1 b2 b3 b4 r1 r2 r3 r4 show ?thesis by blast
qed

theorem reconnecting_Connect_returns_nil_or_blocks_witness:
  "failsTwice (0 + 2) = None \<and>
   (\<exists>b' made' tr. backoff_Connect failsTwice (newBackoffConnectionHandler testCalculator 0, 0)
       = Returns (None, b', made', tr)) \<and>
   (\<exists>r' made' tr. reopen_Connect failsTwice (newReopenIntervalConn, 0)
       = Returns (None, r', made', tr))"
proof -
  have ok: "failsTwice (0 + 2) = None" by (simp add: failsTwice_def)
  then have "\<exists>k. failsTwice (0 + k) = None" by blast
  with ok show ?thesis
    using reconnecting_Connect_returns_nil_or_blocks
      [of failsTwice "newBackoffConnectionHandler testCalculator 0" 0 newReopenIntervalConn]
    by blast
qed

subsection \<open>The repair branch of the backoff handler\<close>

lemma repair_begin_inner:
  assumes "backoffConnectionHandler.inner b = Some h"
  shows "repair_begin closeErr now (b, l) =
     Returns (b\<lparr>closeReason := closeErr h\<rparr>,
       l\<lparr>attempts :=
           (if \<exists>r. closeErr h = Some r \<and>
                 (errors_Is r ErrConnectionClosed \<or> errors_Is r ErrTerminated)
            then (if connDurationThreshold b < time_Since (thenT l) now then 0
                  else attempts l + 1)
            else attempts l)\<rparr>,
       [InnerClose h,
        Sleep (calculator b
           (if \<exists>r. closeErr h = Some r \<and>
                 (errors_Is r ErrConnectionClosed \<or> errors_Is r ErrTerminated)
            then (if connDurationThreshold b < time_Since (thenT l) now then 0
                  else attempts l + 1)
            else attempts l))])"
  using assms by (auto simp: repair_begin_def Let_def split: option.splits)

lemma newConnHandler_calculator:
  "calculator b' = calculator b \<Longrightarrow> newConnHandler b' connect made = newConnHandler b connect made"
  by (simp add: newConnHandler_def)

text \<open>
  C1. In the \<^verbatim>\<open>case <-innerCloseChan\<close> branch of the backoff handler, when the close
  reason taken from the inner handler matches \<^verbatim>\<open>ErrConnectionClosed\<close> or \<^verbatim>\<open>ErrTerminated\<close>
  and the time since the last successful connect exceeds \<^verbatim>\<open>connDurationThreshold\<close>, the
  counter becomes 0; when the reason matches and the time does not exceed the threshold,
  the counter grows by 1; for any other reason, nil included, the counter stays. The
  handler closes the inner handler, sleeps \<open>f\<close> of the resulting counter and only then
  reconnects; after the reconnect the branch reads the clock anew for the next repair.
\<close>

theorem run_repair_attempt_counter:
  assumes "backoffConnectionHandler.inner b = Some h"
    and "run_innerCloseChan closeErr connect now1 now2 (b, l, made) = Returns (b', l', made', tr)"
  shows "attempts l' =
      (if \<exists>r. closeErr h = Some r \<and> (errors_Is r ErrConnectionClosed \<or> errors_Is r ErrTerminated)
       then (if connDurationThreshold b < time_Since (thenT l) now1 then 0 else attempts l + 1)
       else attempts l) \<and>
    thenT l' = now2 \<and>
    (\<exists>ch reconnect. newConnHandler b connect made = Some (ch, made', reconnect) \<and>
       tr = [InnerClose h, Sleep (calculator b (attempts l'))] @ reconnect
              @ [Go (EmitTask EventReconnect)])"
proof -
  let ?b1 = "b\<lparr>closeReason := closeErr h\<rparr>"
  have same: "newConnHandler ?b1 connect made = newConnHandler b connect made"
    by (rule newConnHandler_calculator) simp
  show ?thesis
    using assms(2)
    unfolding run_innerCloseChan_def
    by (auto simp: repair_begin_inner [OF assms(1)] same repair_end_def split: option.splits)
qed

theorem run_repair_attempt_counter_witness:
  "run_innerCloseChan closedByPeer alwaysConnects (31 * Second) (32 * Second)
      (connected 0, running 0 3, 1) =
     Returns ((connected 1)\<lparr>closeReason := closedByPeer 0\<rparr>,
              \<lparr>innerCloseChan = 1, attempts = 0, thenT = 32 * Second, deferred = 0\<rparr>, 2,
              [InnerClose 0, Sleep (testCalculator 0), Create 1, InnerConnect 1,
               Go (EmitTask EventReconnect)]) \<and>
   run_innerCloseChan closedByPeer alwaysConnects (5 * Second) (6 * Second)
      (connected 0, running 0 3, 1) =
     Returns ((connected 1)\<lparr>closeReason := closedByPeer 0\<rparr>,
              \<lparr>innerCloseChan = 1, attempts = 4, thenT = 6 * Second, deferred = 0\<rparr>, 2,
              [InnerClose 0, Sleep (testCalculator 4), Create 1, InnerConnect 1,
               Go (EmitTask EventReconnect)]) \<and>
   run_innerCloseChan closedClean alwaysConnects (31 * Second) (32 * Second)
      (connected 0, running 0 3, 1) =
     Returns ((connected 1)\<lparr>closeReason := None\<rparr>,
              \<lparr>innerCloseChan = 1, attempts = 3, thenT = 32 * Second, deferred = 0\<rparr>, 2,
              [InnerClose 0, Sleep (testCalculator 3), Create 1, InnerConnect 1,
               Go (EmitTask EventReconnect)])"
proof -
  note defs = run_innerCloseChan_def repair_begin_def repair_end_def newConnHandler_def
    newConnHandler_loop.simps newConnHandler_iter_def connected_def running_def
    newBackoffConnectionHandler_def closedByPeer_def closedClean_def alwaysConnects_def
    time_Since_def maxDuration_def minDuration_def Second_def testCalculator_def Let_def
  have inner0: "backoffConnectionHandler.inner (connected 0) = Some 0"
    by (simp add: connected_def)
  have reset: "run_innerCloseChan closedByPeer alwaysConnects (31 * Second) (32 * Second)
      (connected 0, running 0 3, 1) =
     Returns ((connected 1)\<lparr>closeReason := closedByPeer 0\<rparr>,
              \<lparr>innerCloseChan = 1, attempts = 0, thenT = 32 * Second, deferred = 0\<rparr>, 2,
              [InnerClose 0, Sleep (testCalculator 0), Create 1, InnerConnect 1,
               Go (EmitTask EventReconnect)])"
    by (simp add: defs)
  have grow: "run_innerCloseChan closedByPeer alwaysConnects (5 * Second) (6 * Second)
      (connected 0, running 0 3, 1) =
     Returns ((connected 1)\<lparr>closeReason := closedByPeer 0\<rparr>,
              \<lparr>innerCloseChan = 1, attempts = 4, thenT = 6 * Second, deferred = 0\<rparr>, 2,
              [InnerClose 0, Sleep (testCalculator 4), Create 1, InnerConnect 1,
               Go (EmitTask EventReconnect)])"
    by (simp add: defs)
  have stay: "run_innerCloseChan closedClean alwaysConnects (31 * Second) (32 * Second)
      (connected 0, running 0 3, 1) =
     Returns ((connected 1)\<lparr>closeReason := None\<rparr>,
              \<lparr>innerCloseChan = 1, attempts = 3, thenT = 32 * Second, deferred = 0\<rparr>, 2,
              [InnerClose 0, Sleep (testCalculator 3), Create 1, InnerConnect 1,
               Go (EmitTask EventReconnect)])"
    by (simp add: defs)
  from run_repair_attempt_counter [OF inner0 reset] run_repair_attempt_counter [OF inner0 grow]
    run_repair_attempt_counter [OF inner0 stay] reset grow stay
  show ?thesis by simp
qed

text \<open>
  C7, as stated: the connecting loop of the backoff handler takes the fixed one-second
  branch on a rate-limit error. The first handler fails to connect with the error that
  \<^verbatim>\<open>handleDialError\<close> makes of a 429 response; the loop sleeps \<open>f 1\<close>, two seconds with
  this calculator, not one second.
\<close>

theorem rate_limit_error_takes_calculator_branch:
  "rateLimitedOnce 0 = Some (Wrap ErrRateLimit ''slow down'') \<and>
   backoff_Connect rateLimitedOnce (newBackoffConnectionHandler testCalculator (30 * Second), 0) =
     Returns (None, connected 1, 2,
       [Create 0, InnerConnect 0, Sleep (2 * Second), Create 1, InnerConnect 1, Go RunTask]) \<and>
   2 * Second \<noteq> Second"
  by (simp add: rateLimitedOnce_def tooManyRequests_def handleDialError_def
      StatusTooManyRequests_def errors_Wrap_def backoff_Connect_def newConnHandler_def
      newConnHandler_loop.simps newConnHandler_iter_def connected_def
      newBackoffConnectionHandler_def testCalculator_def Second_def)

text \<open>
  C7, amended: when a dial attempt receives an HTTP 429 response, the default dial-error
  handling returns an error that wraps \<^verbatim>\<open>ErrRateLimit\<close> and carries the response body (the
  empty string when the body is nil or cannot be read). That error does not match
  \<^verbatim>\<open>ErrCannotConnect\<close>: when \<^verbatim>\<open>Connect\<close> of the inner handler returns it, the connecting
  loop of the backoff handler takes the \<open>f (attempts)\<close> branch, with the counter that
  already counts this attempt.
\<close>

theorem rate_limit_error_wraps_ErrRateLimit_and_backs_off:
  assumes "StatusCode r = 429"
    and "connect made = handleDialError None (Some r) err"
  shows "handleDialError None (Some r) err =
       Some (Wrap ErrRateLimit (case Body r of Some (Reads bts) \<Rightarrow> bts | _ \<Rightarrow> [])) \<and>
     (\<exists>e. connect made = Some e \<and> errors_Is e ErrRateLimit \<and> \<not> errors_Is e ErrCannotConnect) \<and>
     newConnHandler_iter connect calc n made =
       Inl (n + 1, made + 1, [Create made, InnerConnect made, Sleep (calc (n + 1))])"
  using assms
  by (simp add: handleDialError_def StatusTooManyRequests_def errors_Wrap_def
      newConnHandler_iter_def Let_def)

theorem rate_limit_error_wraps_ErrRateLimit_and_backs_off_witness:
  "StatusCode tooManyRequests = 429 \<and>
   handleDialError None (Some tooManyRequests) (Some (Other ''bad handshake'')) =
     Some (Wrap ErrRateLimit ''slow down'') \<and>
   newConnHandler_iter rateLimitedOnce testCalculator 0 0 =
     Inl (1, 1, [Create 0, InnerConnect 0, Sleep (testCalculator 1)])"
proof -
  have h1: "StatusCode tooManyRequests = 429"
    by (simp add: tooManyRequests_def)
  have h2: "rateLimitedOnce 0 =
      handleDialError None (Some tooManyRequests) (Some (Other ''bad handshake''))"
    by (simp add: rateLimitedOnce_def)
  from rate_limit_error_wraps_ErrRateLimit_and_backs_off
      [of tooManyRequests rateLimitedOnce 0 "Some (Other ''bad handshake'')" testCalculator 0] h1 h2
  show ?thesis by (simp add: tooManyRequests_def)
qed

subsection \<open>Rotation of the reopen-interval handler\<close>

lemma newConnectionHandler_Some_shape:
  assumes "newConnectionHandler connect made = Some (conn, made', tr)"
  shows "\<exists>k. conn = made + k \<and> made' = Suc (made + k) \<and>
     tr = cleaned_attempts made k @ [Create (made + k), InnerConnect (made + k)]"
proof -
  from assms have "\<exists>k. connect (made + k) = None"
    using newConnectionHandler_returns_iff [of connect made] by blast
  then obtain k where "connect (made + k) = None"
    and "\<And>i. i < k \<Longrightarrow> connect (made + i) \<noteq> None"
    using first_success [of connect made] by blast
  then have "newConnectionHandler connect made =
      Some (made + k, Suc (made + k),
            cleaned_attempts made k @ [Create (made + k), InnerConnect (made + k)])"
    unfolding newConnectionHandler_def
    using newConnectionHandler_loop_returns [of k connect made "[]"] by simp
  with assms show ?thesis by auto
qed

lemma cleaned_attempts_set:
  "set (cleaned_attempts made k) \<subseteq>
     (\<Union>i\<in>{0..<k}. {Create (made + i), InnerConnect (made + i), InnerClose (made + i)})"
  by (auto simp: cleaned_attempts_def)

lemma occurs_before_append:
  assumes "b \<notin> set xs" and "a \<in> set xs"
  shows "occurs_before a b (xs @ b # ys)"
proof -
  have "\<And>x. x \<in> set xs \<Longrightarrow> x \<noteq> b" using assms(1) by auto
  then have "takeWhile (\<lambda>e. e \<noteq> b) (xs @ b # ys) = xs @ takeWhile (\<lambda>e. e \<noteq> b) (b # ys)"
    by (rule takeWhile_append2)
  then show ?thesis using assms(2) by (simp add: occurs_before_def)
qed

text \<open>
  C3, as stated: on a scheduled rotation the new handler is swapped in and only then the
  old one is closed. With handler 0 current and handler 1 the next one made, the rotation
  closes handler 0 before it assigns handler 1 to \<^verbatim>\<open>b.inner\<close>.
\<close>

theorem rotation_closes_old_before_swap:
  "reopen_run_select alwaysConnects TickerFired
      (newReopenIntervalConn\<lparr>inner := Some 0\<rparr>, \<lparr>connCount = 0, closeChan = 0\<rparr>, 1) =
     Returns (newReopenIntervalConn\<lparr>inner := Some 1\<rparr>, \<lparr>connCount = 1, closeChan = 1\<rparr>, 2,
       [Create 1, InnerConnect 1, Lock, InnerClose 0, SetInner 1, Unlock], Next) \<and>
   occurs_before (InnerClose 0) (SetInner 1)
     [Create 1, InnerConnect 1, Lock, InnerClose 0, SetInner 1, Unlock] \<and>
   \<not> occurs_before (SetInner 1) (InnerClose 0)
     [Create 1, InnerConnect 1, Lock, InnerClose 0, SetInner 1, Unlock]"
  by (simp add: reopen_run_select_def newConnectionHandler_def newConnectionHandler_loop.simps
      newConnectionHandler_iter_def alwaysConnects_def newReopenIntervalConn_def
      occurs_before_def)

text \<open>
  C3, amended: on every scheduled rotation of the reopen-interval handler the sequence
  is: create and connect a new inner handler, on fresh handlers until one connects; then,
  under the write lock, close the old inner handler and after that assign the new one as
  the current inner. So the connect of the new handler comes before the close of the
  previous one, and the close comes before the swap.
\<close>

theorem rotation_connects_new_before_closing_old:
  assumes "reopenIntervalConnectionHandler.inner b = Some old"
    and "old < made"
    and "reopen_run_select connect TickerFired (b, l, made) = Returns (b', l', made', tr, fl)"
  shows "\<exists>k. reopenIntervalConnectionHandler.inner b' = Some (made + k) \<and>
     closeChan l' = made + k \<and>
     tr = cleaned_attempts made k @
          [Create (made + k), InnerConnect (made + k),
           Lock, InnerClose old, SetInner (made + k), Unlock] \<and>
     occurs_before (InnerConnect (made + k)) (InnerClose old) tr \<and>
     occurs_before (InnerClose old) (SetInner (made + k)) tr"
proof -
  from assms(3) assms(1) obtain conn reconnect where
    new: "newConnectionHandler connect made = Some (conn, made', reconnect)"
    and b': "b' = b\<lparr>inner := Some conn\<rparr>"
    and l': "closeChan l' = conn"
    and tr: "tr = reconnect @ [Lock, InnerClose old, SetInner conn, Unlock]"
    by (auto simp: reopen_run_select_def split: option.splits)
  from newConnectionHandler_Some_shape [OF new] obtain k where
    conn: "conn = made + k"
    and shape: "reconnect = cleaned_attempts made k @ [Create (made + k), InnerConnect (made + k)]"
    by blast
  let ?pre = "cleaned_attempts made k @ [Create (made + k), InnerConnect (made + k), Lock]"
  have old_fresh: "InnerClose old \<notin> set ?pre"
    using cleaned_attempts_set [of made k] assms(2) by auto
  have swap_fresh: "SetInner (made + k) \<notin> set (?pre @ [InnerClose old])"
    using cleaned_attempts_set [of made k] by auto
  have tr1: "tr = ?pre @ InnerClose old # [SetInner (made + k), Unlock]"
    using tr shape conn by simp
  have tr2: "tr = (?pre @ [InnerClose old]) @ SetInner (made + k) # [Unlock]"
    using tr shape conn by simp
  have o1: "occurs_before (InnerConnect (made + k)) (InnerClose old) tr"
    unfolding tr1 by (rule occurs_before_append [OF old_fresh]) simp
  have o2: "occurs_before (InnerClose old) (SetInner (made + k)) tr"
    unfolding tr2 by (rule occurs_before_append [OF swap_fresh]) simp
  from b' l' conn tr shape o1 o2 show ?thesis by auto
qed

theorem rotation_connects_new_before_closing_old_witness:
  "reopenIntervalConnectionHandler.inner (newReopenIntervalConn\<lparr>inner := Some 0\<rparr>) = Some 0 \<and>
   (0::nat) < 1 \<and>
   reopen_run_select secondAttemptFails TickerFired
      (newReopenIntervalConn\<lparr>inner := Some 0\<rparr>, \<lparr>connCount = 0, closeChan = 0\<rparr>, 1) =
     Returns (newReopenIntervalConn\<lparr>inner := Some 2\<rparr>, \<lparr>connCount = 1, closeChan = 2\<rparr>, 3,
       [Create 1, InnerConnect 1, InnerClose 1, Create 2, InnerConnect 2,
        Lock, InnerClose 0, SetInner 2, Unlock], Next) \<and>
   occurs_before (InnerConnect 2) (InnerClose 0)
     [Create 1, InnerConnect 1, InnerClose 1, Create 2, InnerConnect 2,
      Lock, InnerClose 0, SetInner 2, Unlock]"
proof -
  have h1: "reopenIntervalConnectionHandler.inner (newReopenIntervalConn\<lparr>inner := Some 0\<rparr>) = Some 0"
    by simp
  have h2: "(0::nat) < 1" by simp
  have h3: "reopen_run_select secondAttemptFails TickerFired
      (newReopenIntervalConn\<lparr>inner := Some 0\<rparr>, \<lparr>connCount = 0, closeChan = 0\<rparr>, 1) =
     Returns (newReopenIntervalConn\<lparr>inner := Some 2\<rparr>, \<lparr>connCount = 1, closeChan = 2\<rparr>, 3,
       [Create 1, InnerConnect 1, InnerClose 1, Create 2, InnerConnect 2,
        Lock, InnerClose 0, SetInner 2, Unlock], Next)"
    by (simp add: reopen_run_select_def newConnectionHandler_def newConnectionHandler_loop.simps
        newConnectionHandler_iter_def secondAttemptFails_def newReopenIntervalConn_def)
  from rotation_connects_new_before_closing_old [OF h1 h2 h3] h1 h2 h3
  show ?thesis by (simp add: occurs_before_def)
qed

subsection \<open>Once-guards\<close>

lemma setCloseReason_after_first:
  "closeReasonOnce w \<Longrightarrow> fold setCloseReason errs w = w"
  by (induction errs) (simp_all add: setCloseReason_def)

text \<open>
  C5, as stated: no handler replaces a close reason once it is set. The backoff handler
  repairs twice: the first inner handler closes with a wrapped \<^verbatim>\<open>ErrConnectionClosed\<close>, the
  second with \<^verbatim>\<open>ErrTerminated\<close>, and the second repair overwrites the close reason the
  first one stored.
\<close>

theorem backoff_closeReason_overwritten:
  "run_innerCloseChan closedThenTerminated alwaysConnects (5 * Second) (6 * Second)
      (connected 0, running 0 0, 1) =
     Returns ((connected 1)
                \<lparr>closeReason := Some (Wrap ErrConnectionClosed ''error occurred on websocket read: EOF'')\<rparr>,
              \<lparr>innerCloseChan = 1, attempts = 1, thenT = 6 * Second, deferred = 0\<rparr>, 2,
              [InnerClose 0, Sleep (testCalculator 1), Create 1, InnerConnect 1,
               Go (EmitTask EventReconnect)]) \<and>
   run_innerCloseChan closedThenTerminated alwaysConnects (9 * Second) (10 * Second)
      ((connected 1)
         \<lparr>closeReason := Some (Wrap ErrConnectionClosed ''error occurred on websocket read: EOF'')\<rparr>,
       \<lparr>innerCloseChan = 1, attempts = 1, thenT = 6 * Second, deferred = 0\<rparr>, 2) =
     Returns ((connected 2)\<lparr>closeReason := Some ErrTerminated\<rparr>,
              \<lparr>innerCloseChan = 2, attempts = 2, thenT = 10 * Second, deferred = 0\<rparr>, 3,
              [InnerClose 1, Sleep (testCalculator 2), Create 2, InnerConnect 2,
               Go (EmitTask EventReconnect)]) \<and>
   Some (Wrap ErrConnectionClosed ''error occurred on websocket read: EOF'') \<noteq> Some ErrTerminated"
  by (simp add: run_innerCloseChan_def repair_begin_def repair_end_def newConnHandler_def
      newConnHandler_loop.simps newConnHandler_iter_def connected_def running_def
      newBackoffConnectionHandler_def closedThenTerminated_def alwaysConnects_def
      time_Since_def maxDuration_def minDuration_def Second_def testCalculator_def Let_def)

text \<open>
  C5, amended: the close reason of a websocket connection is written at most once, by the
  first call of \<^verbatim>\<open>setCloseReason\<close>; no later call replaces it. The backoff handler has no
  such guard: every repair cycle assigns to its close reason what \<^verbatim>\<open>CloseErr\<close> returns on
  the inner handler that has just closed, whatever was stored before, and its \<^verbatim>\<open>Close\<close>
  does not write the close reason.
\<close>

theorem closeReason_once_for_connection_only:
  "WsConnection.closeReason (fold setCloseReason errs (setCloseReason e NewWebsocketConnection)) = e \<and>
   (backoffConnectionHandler.inner b = Some h \<and>
    run_innerCloseChan closeErr connect now1 now2 (b, l, made) = Returns (b', l', made', tr)
      \<longrightarrow> backoffConnectionHandler.closeReason b' = closeErr h) \<and>
   (backoff_Close b = Returns (b'', tr'')
      \<longrightarrow> backoffConnectionHandler.closeReason b'' = backoffConnectionHandler.closeReason b)"
proof -
  have first: "closeReasonOnce (setCloseReason e NewWebsocketConnection)"
    by (simp add: setCloseReason_def NewWebsocketConnection_def)
  have ws: "WsConnection.closeReason
      (fold setCloseReason errs (setCloseReason e NewWebsocketConnection)) = e"
    by (simp add: setCloseReason_after_first [OF first])
      (simp add: setCloseReason_def NewWebsocketConnection_def)
  have repair: "backoffConnectionHandler.closeReason b' = closeErr h"
    if "backoffConnectionHandler.inner b = Some h"
      and "run_innerCloseChan closeErr connect now1 now2 (b, l, made) = Returns (b', l', made', tr)"
    using that
    by (auto simp: run_innerCloseChan_def repair_begin_def repair_end_def Let_def
        split: option.splits)
  have close: "backoffConnectionHandler.closeReason b'' = backoffConnectionHandler.closeReason b"
    if "backoff_Close b = Returns (b'', tr'')"
    using that by (auto simp: backoff_Close_def split: if_splits option.splits)
  from ws repair close show ?thesis by blast
qed

theorem closeReason_once_for_connection_only_witness:
  "WsConnection.closeReason
     (fold setCloseReason [Some ErrTerminated, Some ErrConnectionClosed]
        (setCloseReason (Some (Wrap ErrConnectionClosed ''EOF'')) NewWebsocketConnection)) =
     Some (Wrap ErrConnectionClosed ''EOF'') \<and>
   backoffConnectionHandler.inner
     ((connected 1)\<lparr>closeReason := Some (Wrap ErrConnectionClosed ''EOF'')\<rparr>) = Some 1 \<and>
   run_innerCloseChan closedThenTerminated alwaysConnects (9 * Second) (10 * Second)
      ((connected 1)\<lparr>closeReason := Some (Wrap ErrConnectionClosed ''EOF'')\<rparr>, running 1 1, 2) =
     Returns ((connected 2)\<lparr>closeReason := Some ErrTerminated\<rparr>,
              \<lparr>innerCloseChan = 2, attempts = 2, thenT = 10 * Second, deferred = 0\<rparr>, 3,
              [InnerClose 1, Sleep (testCalculator 2), Create 2, InnerConnect 2,
               Go (EmitTask EventReconnect)]) \<and>
   backoff_Close (connected 1) =
     Returns ((connected 1)\<lparr>backoffConnectionHandler.closeOnce := True,
                backoffConnectionHandler.closeC := True\<rparr>,
              [InnerClose 1])"
proof -
  have h1: "backoffConnectionHandler.inner
     ((connected 1)\<lparr>closeReason := Some (Wrap ErrConnectionClosed ''EOF'')\<rparr>) = Some 1"
    by (simp add: connected_def)
  have h2: "run_innerCloseChan closedThenTerminated alwaysConnects (9 * Second) (10 * Second)
      ((connected 1)\<lparr>closeReason := Some (Wrap ErrConnectionClosed ''EOF'')\<rparr>, running 1 1, 2) =
     Returns ((connected 2)\<lparr>closeReason := Some ErrTerminated\<rparr>,
              \<lparr>innerCloseChan = 2, attempts = 2, thenT = 10 * Second, deferred = 0\<rparr>, 3,
              [InnerClose 1, Sleep (testCalculator 2), Create 2, InnerConnect 2,
               Go (EmitTask EventReconnect)])"
    by (simp add: run_innerCloseChan_def repair_begin_def repair_end_def newConnHandler_def
        newConnHandler_loop.simps newConnHandler_iter_def connected_def running_def
        newBackoffConnectionHandler_def closedThenTerminated_def alwaysConnects_def
        time_Since_def maxDuration_def minDuration_def Second_def testCalculator_def Let_def)
  have h3: "backoff_Close (connected 1) =
     Returns ((connected 1)\<lparr>backoffConnectionHandler.closeOnce := True,
                backoffConnectionHandler.closeC := True\<rparr>,
              [InnerClose 1])"
    by (simp add: backoff_Close_def connected_def newBackoffConnectionHandler_def)
  from closeReason_once_for_connection_only
    [of "[Some ErrTerminated, Some ErrConnectionClosed]" "Some (Wrap ErrConnectionClosed ''EOF'')"
      "(connected 1)\<lparr>closeReason := Some (Wrap ErrConnectionClosed ''EOF'')\<rparr>" 1
      closedThenTerminated alwaysConnects "9 * Second" "10 * Second" "running 1 1" 2
      "(connected 2)\<lparr>closeReason := Some ErrTerminated\<rparr>"
      "\<lparr>innerCloseChan = 2, attempts = 2, thenT = 10 * Second, deferred = 0\<rparr>" 3
      "[InnerClose 1, Sleep (testCalculator 2), Create 2, InnerConnect 2,
               Go (EmitTask EventReconnect)]"]
    h1 h2 h3
  show ?thesis
    by (simp add: closedThenTerminated_def setCloseReason_def NewWebsocketConnection_def)
qed

text \<open>
  C6, as stated: a second \<^verbatim>\<open>Connect\<close> on the reopen-interval handler is a no-op. The
  second call connects handler 1, replaces handler 0 as the inner handler and starts a
  second \<^verbatim>\<open>run\<close> task.
\<close>

theorem reopen_second_Connect_connects_again:
  "reopen_Connect alwaysConnects (newReopenIntervalConn, 0) =
     Returns (None, newReopenIntervalConn\<lparr>inner := Some 0\<rparr>, 1,
       [Lock, Create 0, InnerConnect 0, SetInner 0, Unlock, Go RunTask]) \<and>
   reopen_Connect alwaysConnects (newReopenIntervalConn\<lparr>inner := Some 0\<rparr>, 1) =
     Returns (None, newReopenIntervalConn\<lparr>inner := Some 1\<rparr>, 2,
       [Lock, Create 1, InnerConnect 1, SetInner 1, Unlock, Go RunTask])"
  by (simp add: reopen_Connect_def newConnectionHandler_def newConnectionHandler_loop.simps
      newConnectionHandler_iter_def alwaysConnects_def newReopenIntervalConn_def)

text \<open>
  C6, amended: for the active keep-alive handler, \<^verbatim>\<open>Connect\<close> sets its once-guard, and a
  call with the guard set is a no-op: no inner connection, no task, the handler unchanged
  and nil returned. The \<^verbatim>\<open>Connect\<close> of the reopen-interval handler has no guard: every
  call that returns, whatever the handler held before, has connected a handler made by
  that call, has made it the inner handler and has started a \<^verbatim>\<open>run\<close> task.
\<close>

theorem Connect_once_for_active_keepalive_only:
  "connectOnce (fst (snd (active_Connect connect h))) \<and>
   (connectOnce h \<longrightarrow> active_Connect connect h = (None, h, [])) \<and>
   (reopen_Connect connect (r, made) = Returns (e, r', made', tr) \<longrightarrow>
      (\<exists>k. made' = Suc (made + k) \<and>
           reopenIntervalConnectionHandler.inner r' = Some (made + k) \<and>
           tr = [Lock] @ cleaned_attempts made k @
                [Create (made + k), InnerConnect (made + k), SetInner (made + k), Unlock,
                 Go RunTask]))"
proof -
  have a1: "connectOnce (fst (snd (active_Connect connect h)))"
    by (simp add: active_Connect_def)
  have a2: "connectOnce h \<longrightarrow> active_Connect connect h = (None, h, [])"
    by (simp add: active_Connect_def)
  have r: "\<exists>k. made' = Suc (made + k) \<and>
           reopenIntervalConnectionHandler.inner r' = Some (made + k) \<and>
           tr = [Lock] @ cleaned_attempts made k @
                [Create (made + k), InnerConnect (made + k), SetInner (made + k), Unlock,
                 Go RunTask]"
    if ret: "reopen_Connect connect (r, made) = Returns (e, r', made', tr)"
  proof -
    from ret obtain conn reconnect where
      new: "newConnectionHandler connect made = Some (conn, made', reconnect)"
      and r': "r' = r\<lparr>inner := Some conn\<rparr>"
      and tr: "tr = [Lock] @ reconnect @ [SetInner conn, Unlock, Go RunTask]"
      by (auto simp: reopen_Connect_def split: option.splits)
    from newConnectionHandler_Some_shape [OF new] r' tr show ?thesis by auto
  qed
  from a1 a2 r show ?thesis by blast
qed

theorem Connect_once_for_active_keepalive_only_witness:
  "active_Connect alwaysConnects (newActiveKeepAliveConnectionHandler 0) =
     (None, (newActiveKeepAliveConnectionHandler 0)\<lparr>connectOnce := True\<rparr>,
      [InnerConnect 0, Go RunTask]) \<and>
   active_Connect alwaysConnects ((newActiveKeepAliveConnectionHandler 0)\<lparr>connectOnce := True\<rparr>) =
     (None, (newActiveKeepAliveConnectionHandler 0)\<lparr>connectOnce := True\<rparr>, []) \<and>
   reopen_Connect alwaysConnects (newReopenIntervalConn\<lparr>inner := Some 0\<rparr>, 1) =
     Returns (None, newReopenIntervalConn\<lparr>inner := Some 1\<rparr>, 2,
       [Lock, Create 1, InnerConnect 1, SetInner 1, Unlock, Go RunTask])"
proof -
  have h1: "connectOnce ((newActiveKeepAliveConnectionHandler 0)\<lparr>connectOnce := True\<rparr>)"
    by simp
  have h2: "reopen_Connect alwaysConnects (newReopenIntervalConn\<lparr>inner := Some 0\<rparr>, 1) =
     Returns (None, newReopenIntervalConn\<lparr>inner := Some 1\<rparr>, 2,
       [Lock, Create 1, InnerConnect 1, SetInner 1, Unlock, Go RunTask])"
    by (simp add: reopen_Connect_def newConnectionHandler_def newConnectionHandler_loop.simps
        newConnectionHandler_iter_def alwaysConnects_def newReopenIntervalConn_def)
  have first: "active_Connect alwaysConnects (newActiveKeepAliveConnectionHandler 0) =
     (None, (newActiveKeepAliveConnectionHandler 0)\<lparr>connectOnce := True\<rparr>,
      [InnerConnect 0, Go RunTask])"
    by (simp add: active_Connect_def newActiveKeepAliveConnectionHandler_def alwaysConnects_def)
  from Connect_once_for_active_keepalive_only
    [of alwaysConnects "(newActiveKeepAliveConnectionHandler 0)\<lparr>connectOnce := True\<rparr>"
      "newReopenIntervalConn\<lparr>inner := Some 0\<rparr>" 1 None
      "newReopenIntervalConn\<lparr>inner := Some 1\<rparr>" 2
      "[Lock, Create 1, InnerConnect 1, SetInner 1, Unlock, Go RunTask]"]
    h1 h2 first
  show ?thesis by simp
qed

subsection \<open>Messages in the channels of the backoff handler\<close>

lemma run_innerCloseChan_frame:
  assumes "backoffConnectionHandler.inner b = Some h"
    and "run_innerCloseChan closeErr connect now1 now2 (b, l, made) = Returns (b', l', made', tr)"
  shows "(\<exists>ch. backoffConnectionHandler.inner b' = Some ch) \<and> send b' = send b \<and> recv b' = recv b"
  using assms
  by (auto simp: run_innerCloseChan_def repair_begin_def repair_end_def Let_def
      split: option.splits)

lemma backoff_Connect_frame:
  assumes "backoff_Connect connect (b, made) = Returns (e, b', made', tr)"
  shows "(\<exists>ch. backoffConnectionHandler.inner b' = Some ch) \<and> send b' = send b \<and> recv b' = recv b"
  using assms by (auto simp: backoff_Connect_def split: option.splits)

lemma run_select_inner:
  assumes "backoffConnectionHandler.inner b = Some h"
    and "run_select closeErr connect now1 now2 c (b, l, made) = Returns (b', l', made', tr, fl)"
  shows "\<exists>ch. backoffConnectionHandler.inner b' = Some ch"
proof (cases c)
  case InnerCloseChanFired
  with assms(2) obtain es where
    "run_innerCloseChan closeErr connect now1 now2 (b, l, made) = Returns (b', l', made', es)"
    by (auto simp: run_select_def split: outcome.splits)
  from run_innerCloseChan_frame [OF assms(1) this] show ?thesis by blast
next
  case CtxDone
  with assms show ?thesis by (auto simp: run_select_def)
next
  case CloseCFired
  with assms show ?thesis by (auto simp: run_select_def split: if_splits)
next
  case RecvCase
  with assms show ?thesis
    by (auto simp: run_select_def chan_recv_def split: list.splits)
next
  case SendCase
  with assms show ?thesis
    by (auto simp: run_select_def chan_recv_def split: list.splits)
qed

text \<open>
  C4, as stated: a message passed to \<^verbatim>\<open>Send\<close> between two failed reconnect attempts is
  dropped and never forwarded, and the caller never blocks. Inner handler 0 closes; the
  repair closes it and sleeps; the attempt on handler 1 fails; now a caller passes a ping
  to \<^verbatim>\<open>Send\<close>; the attempt on handler 2 succeeds and the repair ends; the next pass of the
  loop takes the ping from the channel and forwards it to handler 2. With 32 messages
  waiting in the channel, \<^verbatim>\<open>Send\<close> blocks. And a ping passed to \<^verbatim>\<open>Send\<close> on a new handler,
  whose inner pointer is nil, waits in the channel while \<^verbatim>\<open>Connect\<close> fails twice and then
  succeeds, and the first pass of \<^verbatim>\<open>run\<close> forwards it to handler 2.
\<close>

theorem message_sent_during_repair_is_forwarded:
  "repair_begin closedByPeer (5 * Second) (connected 0, running 0 0) =
     Returns ((connected 0)\<lparr>closeReason := closedByPeer 0\<rparr>, running 0 1,
              [InnerClose 0, Sleep (testCalculator 1)]) \<and>
   newConnHandler_iter secondAttemptFails testCalculator 0 1 =
     Inl (1, 2, [Create 1, InnerConnect 1, Sleep (testCalculator 1)]) \<and>
   backoff_Send ((connected 0)\<lparr>closeReason := closedByPeer 0\<rparr>) keepAlivePing =
     Returns ((connected 0)\<lparr>closeReason := closedByPeer 0,
                            send := \<lparr>cap = 32, buf = [keepAlivePing]\<rparr>\<rparr>) \<and>
   newConnHandler_iter secondAttemptFails testCalculator 1 2 =
     Inr (2, 3, [Create 2, InnerConnect 2]) \<and>
   repair_end (9 * Second) 2
      ((connected 0)\<lparr>closeReason := closedByPeer 0,
                      send := \<lparr>cap = 32, buf = [keepAlivePing]\<rparr>\<rparr>, running 0 1) =
     ((connected 2)\<lparr>closeReason := closedByPeer 0,
                     send := \<lparr>cap = 32, buf = [keepAlivePing]\<rparr>\<rparr>,
      \<lparr>innerCloseChan = 2, attempts = 1, thenT = 9 * Second, deferred = 0\<rparr>,
      [Go (EmitTask EventReconnect)]) \<and>
   run_select closedByPeer secondAttemptFails (20 * Second) (21 * Second) SendCase
      ((connected 2)\<lparr>closeReason := closedByPeer 0,
                      send := \<lparr>cap = 32, buf = [keepAlivePing]\<rparr>\<rparr>,
       \<lparr>innerCloseChan = 2, attempts = 1, thenT = 9 * Second, deferred = 0\<rparr>, 3) =
     Returns ((connected 2)\<lparr>closeReason := closedByPeer 0, send := \<lparr>cap = 32, buf = []\<rparr>\<rparr>,
              \<lparr>innerCloseChan = 2, attempts = 1, thenT = 9 * Second, deferred = 0\<rparr>, 3,
              [InnerSend 2 keepAlivePing], Next) \<and>
   backoff_Send ((connected 0)\<lparr>closeReason := closedByPeer 0, send := fullChan\<rparr>) keepAlivePing =
     Blocks \<and>
   backoffConnectionHandler.inner (newBackoffConnectionHandler testCalculator (30 * Second)) = None \<and>
   backoff_Send (newBackoffConnectionHandler testCalculator (30 * Second)) keepAlivePing =
     Returns ((newBackoffConnectionHandler testCalculator (30 * Second))
                \<lparr>send := \<lparr>cap = 32, buf = [keepAlivePing]\<rparr>\<rparr>) \<and>
   backoff_Connect failsTwice
      ((newBackoffConnectionHandler testCalculator (30 * Second))
         \<lparr>send := \<lparr>cap = 32, buf = [keepAlivePing]\<rparr>\<rparr>, 0) =
     Returns (None, (connected 2)\<lparr>send := \<lparr>cap = 32, buf = [keepAlivePing]\<rparr>\<rparr>, 3,
       [Create 0, InnerConnect 0, Sleep (testCalculator 1),
        Create 1, InnerConnect 1, Sleep (testCalculator 2),
        Create 2, InnerConnect 2, Go RunTask]) \<and>
   run_begin (4 * Second) ((connected 2)\<lparr>send := \<lparr>cap = 32, buf = [keepAlivePing]\<rparr>\<rparr>) =
     Returns \<lparr>innerCloseChan = 2, attempts = 0, thenT = 4 * Second, deferred = 2\<rparr> \<and>
   run_select closedByPeer alwaysConnects (20 * Second) (21 * Second) SendCase
      ((connected 2)\<lparr>send := \<lparr>cap = 32, buf = [keepAlivePing]\<rparr>\<rparr>,
       \<lparr>innerCloseChan = 2, attempts = 0, thenT = 4 * Second, deferred = 2\<rparr>, 3) =
     Returns ((connected 2)\<lparr>send := \<lparr>cap = 32, buf = []\<rparr>\<rparr>,
              \<lparr>innerCloseChan = 2, attempts = 0, thenT = 4 * Second, deferred = 2\<rparr>, 3,
              [InnerSend 2 keepAlivePing], Next)"
  by (simp add: repair_begin_def repair_end_def newConnHandler_iter_def run_select_def
      backoff_Send_def chan_send_def chan_recv_def make_chan_def fullChan_def
      backoff_Connect_def newConnHandler_def newConnHandler_loop.simps failsTwice_def
      run_begin_def connected_def running_def newBackoffConnectionHandler_def closedByPeer_def
      secondAttemptFails_def time_Since_def maxDuration_def minDuration_def Second_def
      testCalculator_def Let_def)

text \<open>
  C4, amended: \<^verbatim>\<open>Send\<close> and \<^verbatim>\<open>Recv\<close> of the backoff handler enqueue the message on
  bounded channels of capacity 32; the caller does not block while fewer than 32 messages
  wait in the channel, and blocks otherwise. \<^verbatim>\<open>Connect\<close> and the repair branch leave both
  channels as they are and end with a non-nil inner handler, and no pass of the loop makes
  the inner pointer nil. So the nil check drops nothing: every message the loop takes
  from a channel is forwarded to the inner handler that is current at that time, also a
  message that was passed in between failed reconnect attempts.
\<close>

theorem backoff_messages_wait_in_channel_and_are_forwarded:
  "cap (send (newBackoffConnectionHandler calc threshold)) = 32 \<and>
   cap (recv (newBackoffConnectionHandler calc threshold)) = 32 \<and>
   backoff_Send b m =
     (if length (buf (send b)) < cap (send b)
      then Returns (b\<lparr>send := (send b)\<lparr>buf := buf (send b) @ [m]\<rparr>\<rparr>) else Blocks) \<and>
   backoff_Recv b m =
     (if length (buf (recv b)) < cap (recv b)
      then Returns (b\<lparr>recv := (recv b)\<lparr>buf := buf (recv b) @ [m]\<rparr>\<rparr>) else Blocks) \<and>
   (backoff_Connect connect (b, made) = Returns (e, b1, made1, tr1) \<longrightarrow>
      (\<exists>ch. backoffConnectionHandler.inner b1 = Some ch) \<and> send b1 = send b \<and> recv b1 = recv b) \<and>
   (backoffConnectionHandler.inner b = Some h \<and>
    run_innerCloseChan closeErr connect now1 now2 (b, l, made) = Returns (b2, l2, made2, tr2) \<longrightarrow>
      (\<exists>ch. backoffConnectionHandler.inner b2 = Some ch) \<and> send b2 = send b \<and> recv b2 = recv b) \<and>
   (backoffConnectionHandler.inner b = Some h \<and>
    run_select closeErr connect now1 now2 c (b, l, made) = Returns (b3, l3, made3, tr3, fl) \<longrightarrow>
      (\<exists>ch. backoffConnectionHandler.inner b3 = Some ch)) \<and>
   (backoffConnectionHandler.inner b = Some h \<and> buf (send b) = m' # ms \<longrightarrow>
      run_select closeErr connect now1 now2 SendCase (b, l, made) =
        Returns (b\<lparr>send := (send b)\<lparr>buf := ms\<rparr>\<rparr>, l, made, [InnerSend h m'], Next)) \<and>
   (backoffConnectionHandler.inner b = Some h \<and> buf (recv b) = m' # ms \<longrightarrow>
      run_select closeErr connect now1 now2 RecvCase (b, l, made) =
        Returns (b\<lparr>recv := (recv b)\<lparr>buf := ms\<rparr>\<rparr>, l, made, [InnerRecv h m'], Next))"
proof -
  have caps: "cap (send (newBackoffConnectionHandler calc threshold)) = 32 \<and>
      cap (recv (newBackoffConnectionHandler calc threshold)) = 32"
    by (simp add: newBackoffConnectionHandler_def make_chan_def)
  have snd: "backoff_Send b m =
     (if length (buf (send b)) < cap (send b)
      then Returns (b\<lparr>send := (send b)\<lparr>buf := buf (send b) @ [m]\<rparr>\<rparr>) else Blocks)"
    by (simp add: backoff_Send_def chan_send_def)
  have rcv: "backoff_Recv b m =
     (if length (buf (recv b)) < cap (recv b)
      then Returns (b\<lparr>recv := (recv b)\<lparr>buf := buf (recv b) @ [m]\<rparr>\<rparr>) else Blocks)"
    by (simp add: backoff_Recv_def chan_send_def)
  have fwd_send: "run_select closeErr connect now1 now2 SendCase (b, l, made) =
        Returns (b\<lparr>send := (send b)\<lparr>buf := ms\<rparr>\<rparr>, l, made, [InnerSend h m'], Next)"
    if "backoffConnectionHandler.inner b = Some h" and "buf (send b) = m' # ms"
    using that by (simp add: run_select_def chan_recv_def)
  have fwd_recv: "run_select closeErr connect now1 now2 RecvCase (b, l, made) =
        Returns (b\<lparr>recv := (recv b)\<lparr>buf := ms\<rparr>\<rparr>, l, made, [InnerRecv h m'], Next)"
    if "backoffConnectionHandler.inner b = Some h" and "buf (recv b) = m' # ms"
    using that by (simp add: run_select_def chan_recv_def)
  from caps snd rcv fwd_send fwd_recv
    backoff_Connect_frame [of connect b made e b1 made1 tr1]
    run_innerCloseChan_frame [of b h closeErr connect now1 now2 l made b2 l2 made2 tr2]
    run_select_inner [of b h closeErr connect now1 now2 c l made b3 l3 made3 tr3 fl]
  show ?thesis by blast
qed

theorem backoff_messages_wait_in_channel_and_are_forwarded_witness:
  "backoff_Send (connected 0) keepAlivePing =
     Returns ((connected 0)\<lparr>send := \<lparr>cap = 32, buf = [keepAlivePing]\<rparr>\<rparr>) \<and>
   backoffConnectionHandler.inner ((connected 0)\<lparr>send := \<lparr>cap = 32, buf = [keepAlivePing]\<rparr>\<rparr>)
     = Some 0 \<and>
   run_innerCloseChan closedByPeer secondAttemptFails (5 * Second) (9 * Second)
      ((connected 0)\<lparr>send := \<lparr>cap = 32, buf = [keepAlivePing]\<rparr>\<rparr>, running 0 0, 1) =
     Returns ((connected 2)\<lparr>closeReason := closedByPeer 0,
                             send := \<lparr>cap = 32, buf = [keepAlivePing]\<rparr>\<rparr>,
              \<lparr>innerCloseChan = 2, attempts = 1, thenT = 9 * Second, deferred = 0\<rparr>, 3,
              [InnerClose 0, Sleep (testCalculator 1),
               Create 1, InnerConnect 1, Sleep (testCalculator 1), Create 2, InnerConnect 2,
               Go (EmitTask EventReconnect)]) \<and>
   run_select closedByPeer secondAttemptFails (20 * Second) (21 * Second) SendCase
      ((connected 0)\<lparr>send := \<lparr>cap = 32, buf = [keepAlivePing]\<rparr>\<rparr>, running 0 0, 1) =
     Returns ((connected 0)\<lparr>send := \<lparr>cap = 32, buf = []\<rparr>\<rparr>, running 0 0, 1,
              [InnerSend 0 keepAlivePing], Next)"
proof -
  let ?b = "(connected 0)\<lparr>send := \<lparr>cap = 32, buf = [keepAlivePing]\<rparr>\<rparr>"
  have h1: "backoffConnectionHandler.inner ?b = Some 0"
    by (simp add: connected_def)
  have h2: "buf (send ?b) = keepAlivePing # []"
    by simp
  have h3: "run_innerCloseChan closedByPeer secondAttemptFails (5 * Second) (9 * Second)
      (?b, running 0 0, 1) =
     Returns ((connected 2)\<lparr>closeReason := closedByPeer 0,
                             send := \<lparr>cap = 32, buf = [keepAlivePing]\<rparr>\<rparr>,
              \<lparr>innerCloseChan = 2, attempts = 1, thenT = 9 * Second, deferred = 0\<rparr>, 3,
              [InnerClose 0, Sleep (testCalculator 1),
               Create 1, InnerConnect 1, Sleep (testCalculator 1), Create 2, InnerConnect 2,
               Go (EmitTask EventReconnect)])"
    by (simp add: run_innerCloseChan_def repair_begin_def repair_end_def newConnHandler_def
        newConnHandler_loop.simps newConnHandler_iter_def connected_def running_def
        newBackoffConnectionHandler_def closedByPeer_def secondAttemptFails_def
        time_Since_def maxDuration_def minDuration_def Second_def testCalculator_def Let_def)
  have h4: "length (buf (send (connected 0))) < cap (send (connected 0))"
    by (simp add: connected_def newBackoffConnectionHandler_def make_chan_def)
  have q: "(send (connected 0))\<lparr>buf := buf (send (connected 0)) @ [keepAlivePing]\<rparr> =
      \<lparr>cap = 32, buf = [keepAlivePing]\<rparr>"
    by (simp add: connected_def newBackoffConnectionHandler_def make_chan_def)
  from backoff_messages_wait_in_channel_and_are_forwarded
    [where b = "connected 0" and m = keepAlivePing]
  have sent: "backoff_Send (connected 0) keepAlivePing =
     Returns ((connected 0)\<lparr>send := \<lparr>cap = 32, buf = [keepAlivePing]\<rparr>\<rparr>)"
    using h4 q by simp
  from backoff_messages_wait_in_channel_and_are_forwarded
    [where b = ?b and h = 0 and m' = keepAlivePing and ms = "[]" and l = "running 0 0"
      and made = 1 and closeErr = closedByPeer and connect = secondAttemptFails
      and ?now1.0 = "20 * Second" and ?now2.0 = "21 * Second"]
    h1 h2
  have fwd: "run_select closedByPeer secondAttemptFails (20 * Second) (21 * Second) SendCase
      (?b, running 0 0, 1) =
     Returns ((connected 0)\<lparr>send := \<lparr>cap = 32, buf = []\<rparr>\<rparr>, running 0 0, 1,
              [InnerSend 0 keepAlivePing], Next)"
    by simp
  from sent h1 h3 fwd show ?thesis by simp
qed

end
